theory Spec2Isabelle
  imports Complex_Main
begin

section \<open>Data model\<close>

text \<open>
  The document store holds four collections. An \<open>ObjectId\<close> is compared through its
  string form in the route handlers, which is equality of identifiers; a \<open>Date\<close> is a
  reading of the clock. JavaScript numbers (amounts, limits) are modelled as rationals:
  the handlers only compare them.
\<close>

type_synonym ObjectId = nat
type_synonym Date = nat

text \<open>The role strings of the repository: \<open>'admin'\<close>, \<open>'manager'\<close>, \<open>'employee'\<close>,
  \<open>'finance'\<close>, \<open>'director'\<close>.\<close>

datatype role = Admin | Manager | Employee | Finance | Director

text \<open>\<open>approvalSchema.status\<close>: \<open>'pending'\<close>, \<open>'approved'\<close>, \<open>'rejected'\<close>, \<open>'escalated'\<close>.\<close>

datatype approval_status = A_pending | A_approved | A_rejected | A_escalated

text \<open>\<open>expenseSchema.status\<close>.\<close>

datatype expense_status =
  E_draft | E_submitted | E_pending_manager | E_pending_finance | E_pending_director
  | E_approved | E_rejected | E_reimbursed

record Approval =
  a_id :: ObjectId
  a_expense :: ObjectId
  a_approver :: ObjectId
  a_role :: role
  a_status :: approval_status
  a_comments :: "string option"
  a_actionDate :: "Date option"
  a_priority :: int
  a_escalationReason :: "string option"
  a_escalatedTo :: "ObjectId option"
  a_escalationDate :: "Date option"
  a_isUrgent :: bool

record Expense =
  e_id :: ObjectId
  e_employee :: ObjectId
  e_company :: ObjectId
  e_amount :: rat
  e_status :: expense_status
  e_currentApprover :: "ObjectId option"
  e_rejectionReason :: "string option"
  e_approvedBy :: "ObjectId option"
  e_approvedAt :: "Date option"

record User =
  u_id :: ObjectId
  u_role :: role
  u_company :: ObjectId
  u_manager :: "ObjectId option"
  u_isActive :: bool

text \<open>Of a company only \<open>settings.autoApprovalLimit\<close> is read by the workflow; \<open>None\<close> is
  a document in which the field is not set.\<close>

record Company =
  c_id :: ObjectId
  c_autoApprovalLimit :: "rat option"

text \<open>The collections, each in insertion order.\<close>

record db =
  approvals :: "Approval list"
  expenses :: "Expense list"
  users :: "User list"
  companies :: "Company list"

text \<open>The responses a handler can refuse with, named by the \<open>code\<close> field of the JSON body;
  \<open>SERVER_ERROR\<close> is the \<open>catch\<close> block (HTTP 500).\<close>

datatype error =
  APPROVAL_NOT_FOUND | ACCESS_DENIED | APPROVAL_NOT_PENDING | INVALID_ESCALATION_USER
  | EXPENSE_NOT_FOUND | INVALID_STATUS | SERVER_ERROR

fun http_status :: "error \<Rightarrow> nat" where
  "http_status APPROVAL_NOT_FOUND = 404"
| "http_status ACCESS_DENIED = 403"
| "http_status APPROVAL_NOT_PENDING = 400"
| "http_status INVALID_ESCALATION_USER = 400"
| "http_status EXPENSE_NOT_FOUND = 404"
| "http_status INVALID_STATUS = 400"
| "http_status SERVER_ERROR = 500"

section \<open>The model layer\<close>

definition Approval_findById :: "db \<Rightarrow> ObjectId \<Rightarrow> Approval option" where
  "Approval_findById s i = find (\<lambda>a. a_id a = i) (approvals s)"

definition Expense_findById :: "db \<Rightarrow> ObjectId \<Rightarrow> Expense option" where
  "Expense_findById s i = find (\<lambda>e. e_id e = i) (expenses s)"

definition User_findById :: "db \<Rightarrow> ObjectId \<Rightarrow> User option" where
  "User_findById s i = find (\<lambda>u. u_id u = i) (users s)"

definition Company_findById :: "db \<Rightarrow> ObjectId \<Rightarrow> Company option" where
  "Company_findById s i = find (\<lambda>c. c_id c = i) (companies s)"

text \<open>\<open>approvalSchema.role\<close> has \<open>enum: ['manager', 'finance', 'director']\<close>. Saving a
  document runs the schema's validators and throws when one fails. The status is an
  enumeration by type, and the lengths of comment strings are bounded by the request
  validation before a handler runs, so the role is the validator a handler can violate.\<close>

definition approvalSchema_role_enum :: "role list" where
  "approvalSchema_role_enum = [Manager, Finance, Director]"

definition Approval_validate :: "Approval \<Rightarrow> bool" where
  "Approval_validate a = (a_role a \<in> set approvalSchema_role_enum)"

text \<open>\<open>approval.save()\<close> of a document loaded from the store: an update by \<open>_id\<close>.\<close>

definition Approval_save :: "Approval \<Rightarrow> db \<Rightarrow> error + db" where
  "Approval_save a s =
     (if Approval_validate a
      then Inr (s\<lparr>approvals := map (\<lambda>x. if a_id x = a_id a then a else x) (approvals s)\<rparr>)
      else Inl SERVER_ERROR)"

text \<open>\<open>new Approval({...})\<close> takes a fresh \<open>_id\<close> and the schema's defaults
  (\<open>priority: 1\<close>, \<open>isUrgent: false\<close>); \<open>None\<close> for the priority is a constructor call
  that does not give one.\<close>

definition fresh_id :: "db \<Rightarrow> ObjectId" where
  "fresh_id s = Suc (fold max (map a_id (approvals s)) 0)"

definition new_Approval ::
  "db \<Rightarrow> ObjectId \<Rightarrow> ObjectId \<Rightarrow> role \<Rightarrow> approval_status \<Rightarrow> int option \<Rightarrow> Approval" where
  "new_Approval s expense approver r st prio =
     \<lparr> a_id = fresh_id s, a_expense = expense, a_approver = approver, a_role = r,
       a_status = st, a_comments = None, a_actionDate = None,
       a_priority = (case prio of None \<Rightarrow> 1 | Some p \<Rightarrow> p),
       a_escalationReason = None, a_escalatedTo = None, a_escalationDate = None,
       a_isUrgent = False \<rparr>"

text \<open>\<open>save()\<close> of a new document: validated, then inserted.\<close>

definition Approval_insert :: "Approval \<Rightarrow> db \<Rightarrow> error + db" where
  "Approval_insert a s =
     (if Approval_validate a then Inr (s\<lparr>approvals := approvals s @ [a]\<rparr>)
      else Inl SERVER_ERROR)"

text \<open>\<open>expense.save()\<close> of a loaded expense. The handlers assign it only literals of the
  schema's status enumeration, identifiers and dates, so its validators are not modelled.\<close>

definition Expense_save :: "Expense \<Rightarrow> db \<Rightarrow> db" where
  "Expense_save e s = s\<lparr>expenses := map (\<lambda>x. if e_id x = e_id e then e else x) (expenses s)\<rparr>"

text \<open>\<open>Approval.find({expense, status: 'pending'})\<close>.\<close>

definition Approval_find_pending :: "db \<Rightarrow> ObjectId \<Rightarrow> Approval list" where
  "Approval_find_pending s ex =
     filter (\<lambda>a. a_expense a = ex \<and> a_status a = A_pending) (approvals s)"

text \<open>\<open>Approval.findOne({expense, status: 'pending', priority: {$gt: p}}).sort({priority: 1})\<close>:
  the matching document of least priority, the earliest stored among equals.\<close>

definition Approval_findOne_next :: "db \<Rightarrow> ObjectId \<Rightarrow> int \<Rightarrow> Approval option" where
  "Approval_findOne_next s ex p =
     (case sort_key a_priority
             (filter (\<lambda>a. a_expense a = ex \<and> a_status a = A_pending \<and> p < a_priority a)
                (approvals s)) of
        [] \<Rightarrow> None
      | n # _ \<Rightarrow> Some n)"

section \<open>The approval routes\<close>

text \<open>
  Each handler is modelled after \<open>authenticateToken\<close> and \<open>validate\<close> have passed:
  \<open>user\<close> is \<open>req.user\<close>, the body is the validated \<open>req.body\<close> (an optional field is
  \<open>None\<close> when absent). A handler returns its response and the store it leaves; the clock
  is read once per request.
\<close>

record approve_body =
  ab_comments :: "string option"
  ab_isUrgent :: "bool option"

record reject_body =
  rb_comments :: "string option"
  rb_rejectionReason :: "string option"

record escalate_body =
  eb_comments :: "string option"
  eb_escalationReason :: "string option"
  eb_escalatedTo :: ObjectId

text \<open>JavaScript's \<open>a || b\<close> on optional strings and booleans: the empty string,
  \<open>undefined\<close> and \<open>false\<close> are falsy.\<close>

definition or_string :: "string option \<Rightarrow> string option \<Rightarrow> string option" where
  "or_string a b = (case a of None \<Rightarrow> b | Some x \<Rightarrow> if x = [] then b else Some x)"

definition or_bool :: "bool option \<Rightarrow> bool \<Rightarrow> bool" where
  "or_bool a b = (case a of None \<Rightarrow> b | Some x \<Rightarrow> if x then True else b)"

text \<open>\<open>POST /api/approvals/:id/approve\<close>.\<close>

definition approve ::
  "User \<Rightarrow> ObjectId \<Rightarrow> approve_body \<Rightarrow> Date \<Rightarrow> db \<Rightarrow> (error + Approval) \<times> db" where
  "approve user i body now s =
     (case Approval_findById s i of
        None \<Rightarrow> (Inl APPROVAL_NOT_FOUND, s)
      | Some approval \<Rightarrow>
          if a_approver approval \<noteq> u_id user then (Inl ACCESS_DENIED, s)
          else if a_status approval \<noteq> A_pending then (Inl APPROVAL_NOT_PENDING, s)
          else
            let approval' = approval\<lparr>a_status := A_approved, a_comments := ab_comments body,
                  a_actionDate := Some now, a_isUrgent := or_bool (ab_isUrgent body) False\<rparr>
            in (case Approval_save approval' s of
                  Inl err \<Rightarrow> (Inl err, s)
                | Inr s1 \<Rightarrow>
                    (case Expense_findById s1 (a_expense approval') of
                       None \<Rightarrow> (Inr approval', s1)
                     | Some expense \<Rightarrow>
                         let remainingApprovals = Approval_find_pending s1 (e_id expense);
                             expense' =
                               (if length remainingApprovals \<le> 1
                                then expense\<lparr>e_status := E_approved,
                                       e_approvedBy := Some (u_id user),
                                       e_approvedAt := Some now\<rparr>
                                else
                                  (case Approval_findOne_next s1 (e_id expense)
                                          (a_priority approval') of
                                     None \<Rightarrow> expense
                                   | Some nextApproval \<Rightarrow>
                                       let expense1 = expense\<lparr>e_currentApprover :=
                                             Some (a_approver nextApproval)\<rparr>
                                       in if a_role nextApproval = Finance
                                          then expense1\<lparr>e_status := E_pending_finance\<rparr>
                                          else if a_role nextApproval = Director
                                          then expense1\<lparr>e_status := E_pending_director\<rparr>
                                          else expense1))
                         in (Inr approval', Expense_save expense' s1))))"

text \<open>\<open>POST /api/approvals/:id/reject\<close>.\<close>

definition reject ::
  "User \<Rightarrow> ObjectId \<Rightarrow> reject_body \<Rightarrow> Date \<Rightarrow> db \<Rightarrow> (error + Approval) \<times> db" where
  "reject user i body now s =
     (case Approval_findById s i of
        None \<Rightarrow> (Inl APPROVAL_NOT_FOUND, s)
      | Some approval \<Rightarrow>
          if a_approver approval \<noteq> u_id user then (Inl ACCESS_DENIED, s)
          else if a_status approval \<noteq> A_pending then (Inl APPROVAL_NOT_PENDING, s)
          else
            let approval' = approval\<lparr>a_status := A_rejected, a_comments := rb_comments body,
                  a_actionDate := Some now\<rparr>
            in (case Approval_save approval' s of
                  Inl err \<Rightarrow> (Inl err, s)
                | Inr s1 \<Rightarrow>
                    (case Expense_findById s1 (a_expense approval') of
                       None \<Rightarrow> (Inr approval', s1)
                     | Some expense \<Rightarrow>
                         (Inr approval',
                          Expense_save
                            (expense\<lparr>e_status := E_rejected,
                               e_rejectionReason :=
                                 or_string (rb_rejectionReason body) (rb_comments body)\<rparr>)
                            s1))))"

text \<open>\<open>POST /api/approvals/:id/escalate\<close>. The response carries both approvals. The two
  approval writes and the expense write are separate: a write that throws leaves the
  earlier ones in the store.\<close>

definition escalate ::
  "User \<Rightarrow> ObjectId \<Rightarrow> escalate_body \<Rightarrow> Date \<Rightarrow> db \<Rightarrow> (error + Approval \<times> Approval) \<times> db" where
  "escalate user i body now s =
     (case Approval_findById s i of
        None \<Rightarrow> (Inl APPROVAL_NOT_FOUND, s)
      | Some approval \<Rightarrow>
          if a_approver approval \<noteq> u_id user then (Inl ACCESS_DENIED, s)
          else if a_status approval \<noteq> A_pending then (Inl APPROVAL_NOT_PENDING, s)
          else
            (case User_findById s (eb_escalatedTo body) of
               None \<Rightarrow> (Inl INVALID_ESCALATION_USER, s)
             | Some escalatedUser \<Rightarrow>
                 if u_role escalatedUser \<notin> set [Manager, Finance, Admin]
                 then (Inl INVALID_ESCALATION_USER, s)
                 else
                   let approval' = approval\<lparr>a_status := A_escalated,
                         a_comments := eb_comments body,
                         a_escalationReason := eb_escalationReason body,
                         a_escalatedTo := Some (eb_escalatedTo body),
                         a_escalationDate := Some now\<rparr>
                   in (case Approval_save approval' s of
                         Inl err \<Rightarrow> (Inl err, s)
                       | Inr s1 \<Rightarrow>
                           let newApproval = new_Approval s1 (a_expense approval')
                                 (eb_escalatedTo body) (u_role escalatedUser) A_pending
                                 (Some (a_priority approval' + 1))
                           in (case Approval_insert newApproval s1 of
                                 Inl err \<Rightarrow> (Inl err, s1)
                               | Inr s2 \<Rightarrow>
                                   (case Expense_findById s2 (a_expense approval') of
                                      None \<Rightarrow> (Inr (approval', newApproval), s2)
                                    | Some expense \<Rightarrow>
                                        let expense1 = expense\<lparr>e_currentApprover :=
                                              Some (eb_escalatedTo body)\<rparr>;
                                            expense2 =
                                              (if u_role escalatedUser = Finance
                                               then expense1\<lparr>e_status := E_pending_finance\<rparr>
                                               else if u_role escalatedUser = Manager
                                               then expense1\<lparr>e_status := E_pending_manager\<rparr>
                                               else expense1)
                                        in (Inr (approval', newApproval),
                                            Expense_save expense2 s2))))))"

section \<open>Submitting an expense\<close>

text \<open>\<open>company.settings.autoApprovalLimit || 100\<close>: an unset limit and the limit \<open>0\<close> are
  both falsy and give \<open>100\<close>.\<close>

definition or_number :: "rat option \<Rightarrow> rat \<Rightarrow> rat" where
  "or_number a b = (case a of None \<Rightarrow> b | Some x \<Rightarrow> if x = 0 then b else x)"

text \<open>\<open>POST /api/expenses/:id/submit\<close>. Reading \<open>company.settings\<close> or
  \<open>employee.manager\<close> of a document that is not in the store throws, which the \<open>catch\<close>
  block answers.\<close>

definition submit :: "User \<Rightarrow> ObjectId \<Rightarrow> Date \<Rightarrow> db \<Rightarrow> (error + Expense) \<times> db" where
  "submit user i now s =
     (case Expense_findById s i of
        None \<Rightarrow> (Inl EXPENSE_NOT_FOUND, s)
      | Some expense \<Rightarrow>
          if u_role user \<noteq> Admin \<and> u_id user \<noteq> e_employee expense
          then (Inl ACCESS_DENIED, s)
          else if e_status expense \<noteq> E_draft then (Inl INVALID_STATUS, s)
          else
            (case Company_findById s (e_company expense) of
               None \<Rightarrow> (Inl SERVER_ERROR, s)
             | Some company \<Rightarrow>
                 let autoApprovalLimit = or_number (c_autoApprovalLimit company) 100
                 in if e_amount expense \<le> autoApprovalLimit
                    then
                      let expense' = expense\<lparr>e_status := E_approved,
                            e_approvedBy := Some (u_id user), e_approvedAt := Some now\<rparr>
                      in (Inr expense', Expense_save expense' s)
                    else
                      (case User_findById s (e_employee expense) of
                         None \<Rightarrow> (Inl SERVER_ERROR, s)
                       | Some employee \<Rightarrow>
                           (case u_manager employee of
                              Some m \<Rightarrow>
                                let expense' = expense\<lparr>e_status := E_pending_manager,
                                      e_currentApprover := Some m\<rparr>;
                                    approval = new_Approval s (e_id expense) m Manager
                                      A_pending None
                                in (case Approval_insert approval s of
                                      Inl err \<Rightarrow> (Inl err, s)
                                    | Inr s1 \<Rightarrow> (Inr expense', Expense_save expense' s1))
                            | None \<Rightarrow>
                                let expense1 = expense\<lparr>e_status := E_pending_finance\<rparr>;
                                    financeUsers =
                                      filter (\<lambda>u. u_company u = e_company expense \<and>
                                                u_role u = Finance \<and> u_isActive u) (users s)
                                in (case financeUsers of
                                      [] \<Rightarrow> (Inr expense1, Expense_save expense1 s)
                                    | f # _ \<Rightarrow>
                                        let expense' = expense1\<lparr>e_currentApprover :=
                                              Some (u_id f)\<rparr>;
                                            approval = new_Approval s (e_id expense) (u_id f)
                                              Finance A_pending None
                                        in (case Approval_insert approval s of
                                              Inl err \<Rightarrow> (Inl err, s)
                                            | Inr s1 \<Rightarrow>
                                                (Inr expense', Expense_save expense' s1)))))))"

text \<open>\<open>approvalValidation.reject\<close>, as it holds of a validated body: \<open>comments\<close> is
  required, of 10 to 500 characters; \<open>rejectionReason\<close> is optional, of at most 500
  characters, and a string rule of the validator does not accept the empty string.\<close>

definition approvalValidation_reject :: "reject_body \<Rightarrow> bool" where
  "approvalValidation_reject b =
     ((case rb_comments b of None \<Rightarrow> False | Some c \<Rightarrow> 10 \<le> length c \<and> length c \<le> 500) \<and>
      (case rb_rejectionReason b of None \<Rightarrow> True | Some r \<Rightarrow> r \<noteq> [] \<and> length r \<le> 500))"

section \<open>Receipt text extraction\<close>

text \<open>
  \<open>parseReceiptText\<close> works on the text the recognizer returns. A string is modelled as a
  list of 8-bit characters; case mapping and the white space class are those of this
  alphabet. Amounts and the confidence are modelled as exact rationals (the decimal a
  matched numeral denotes, tenths for the confidence), where the program computes
  with doubles.
\<close>

subsection \<open>Strings\<close>

text \<open>White space and line terminators, as \<open>trim\<close> and the class \<open>\s\<close> take them.\<close>

definition white_space :: "char list" where
  "white_space = [CHR 0x09, CHR 0x0A, CHR 0x0B, CHR 0x0C, CHR 0x0D, CHR '' '', CHR 0xA0]"

definition trim :: "string \<Rightarrow> string" where
  "trim s = rev (dropWhile (\<lambda>c. c \<in> set white_space)
                  (rev (dropWhile (\<lambda>c. c \<in> set white_space) s)))"

text \<open>\<open>text.split('\n')\<close>.\<close>

fun split_lines :: "string \<Rightarrow> string list" where
  "split_lines [] = [[]]"
| "split_lines (c # cs) =
     (if c = CHR 0x0A then [] # split_lines cs
      else (case split_lines cs of l # ls \<Rightarrow> (c # l) # ls | [] \<Rightarrow> [[c]]))"

text \<open>\<open>text.split('\n').map(line => line.trim()).filter(line => line.length > 0)\<close>.\<close>

definition lines_of :: "string \<Rightarrow> string list" where
  "lines_of text = filter (\<lambda>line. length line > 0) (map trim (split_lines text))"

definition toUpperCase_char :: "char \<Rightarrow> char" where
  "toUpperCase_char c =
     (case map_of (zip ''abcdefghijklmnopqrstuvwxyz'' ''ABCDEFGHIJKLMNOPQRSTUVWXYZ'') c of
        Some u \<Rightarrow> u | None \<Rightarrow> c)"

definition toLowerCase_char :: "char \<Rightarrow> char" where
  "toLowerCase_char c =
     (case map_of (zip ''ABCDEFGHIJKLMNOPQRSTUVWXYZ'' ''abcdefghijklmnopqrstuvwxyz'') c of
        Some l \<Rightarrow> l | None \<Rightarrow> c)"

definition toUpperCase :: "string \<Rightarrow> string" where
  "toUpperCase s = map toUpperCase_char s"

definition toLowerCase :: "string \<Rightarrow> string" where
  "toLowerCase s = map toLowerCase_char s"

text \<open>\<open>s.includes(k)\<close>: \<open>k\<close> occurs in \<open>s\<close>.\<close>

fun String_includes :: "string \<Rightarrow> string \<Rightarrow> bool" where
  "String_includes [] k = (k = [])"
| "String_includes (c # cs) k = (take (length k) (c # cs) = k \<or> String_includes cs k)"

subsection \<open>Regular expressions\<close>

text \<open>
  The constructs the parser's patterns use: a character out of a set (a literal, a
  class, both cases of a letter under the flag \<open>i\<close>), sequence, alternative, the greedy
  star and the greedy bounded repetition \<open>{lo,hi}\<close>. \<open>rmatch r s\<close> lists what is left of
  \<open>s\<close> after each way of matching \<open>r\<close> at its start, in the order in which a backtracking
  matcher tries them; the head of the list is the match it returns.
\<close>

datatype re = Eps | Chars "char list" | Cat re re | Alt re re | Star re | Repeat nat nat re

text \<open>The star takes an iteration only when it consumes input, so the length of the
  input bounds the number of iterations.\<close>

fun star_match :: "(string \<Rightarrow> string list) \<Rightarrow> nat \<Rightarrow> string \<Rightarrow> string list" where
  "star_match f 0 s = [s]"
| "star_match f (Suc n) s =
     concat (map (\<lambda>t. if length t < length s then star_match f n t else []) (f s)) @ [s]"

fun repeat_match :: "(string \<Rightarrow> string list) \<Rightarrow> nat \<Rightarrow> nat \<Rightarrow> string \<Rightarrow> string list" where
  "repeat_match f lo 0 s = (if lo = 0 then [s] else [])"
| "repeat_match f lo (Suc hi) s =
     concat (map (repeat_match f (lo - 1) hi) (f s)) @ (if lo = 0 then [s] else [])"

primrec rmatch :: "re \<Rightarrow> string \<Rightarrow> string list" where
  "rmatch Eps s = [s]"
| "rmatch (Chars cs) s = (case s of [] \<Rightarrow> [] | c # t \<Rightarrow> if c \<in> set cs then [t] else [])"
| "rmatch (Cat a b) s = concat (map (rmatch b) (rmatch a s))"
| "rmatch (Alt a b) s = rmatch a s @ rmatch b s"
| "rmatch (Star a) s = star_match (rmatch a) (length s) s"
| "rmatch (Repeat lo hi a) s = repeat_match (rmatch a) lo hi s"

text \<open>Every pattern of the parser has one capture group, which every match goes through:
  a pattern is what stands before the group, the group, and what stands after it.\<close>

record pattern =
  p_before :: re
  p_group :: re
  p_after :: re

text \<open>The matches of a pattern at the start of \<open>s\<close>, each as \<open>(match[0], match[1])\<close>.\<close>

definition match_at :: "pattern \<Rightarrow> string \<Rightarrow> (string \<times> string) list" where
  "match_at p s =
     concat (map (\<lambda>t1.
       concat (map (\<lambda>t2.
         map (\<lambda>t3. (take (length s - length t3) s, take (length t1 - length t2) t1))
           (rmatch (p_after p) t2))
         (rmatch (p_group p) t1)))
       (rmatch (p_before p) s))"

text \<open>\<open>line.match(pattern)\<close> for a pattern without the flag \<open>g\<close>: the first match at the
  leftmost position that has one, or \<open>None\<close> for \<open>null\<close>.\<close>

primrec js_match :: "pattern \<Rightarrow> string \<Rightarrow> (string \<times> string) option" where
  "js_match p [] = (case match_at p [] of [] \<Rightarrow> None | m # _ \<Rightarrow> Some m)"
| "js_match p (c # cs) =
     (case match_at p (c # cs) of [] \<Rightarrow> js_match p cs | m # _ \<Rightarrow> Some m)"

definition opt_re :: "re \<Rightarrow> re" where
  "opt_re r = Alt r Eps"

definition plus_re :: "re \<Rightarrow> re" where
  "plus_re r = Cat r (Star r)"

definition digit :: re where
  "digit = Chars ''0123456789''"

text \<open>A word under the flag \<open>i\<close>.\<close>

primrec lit_i :: "string \<Rightarrow> re" where
  "lit_i [] = Eps"
| "lit_i (c # cs) = Cat (Chars [toUpperCase_char c, toLowerCase_char c]) (lit_i cs)"

primrec alts :: "re list \<Rightarrow> re" where
  "alts [] = Chars []"
| "alts (r # rs) = Alt r (alts rs)"

text \<open>\<open>\d+\.?\d*\<close>.\<close>

definition number :: re where
  "number = Cat (plus_re digit) (Cat (opt_re (Chars ''.'')) (Star digit))"

text \<open>
  \<^verbatim>\<open>/TOTAL[:\s]*\$?(\d+\.?\d*)/i\<close>, \<^verbatim>\<open>/AMOUNT[:\s]*\$?(\d+\.?\d*)/i\<close>,
  \<^verbatim>\<open>/\$(\d+\.?\d*)/\<close>, \<^verbatim>\<open>/(\d+\.?\d*)\s*USD/i\<close>, \<^verbatim>\<open>/(\d+\.?\d*)\s*EUR/i\<close>,
  \<^verbatim>\<open>/(\d+\.?\d*)\s*GBP/i\<close>.
\<close>

definition amountPatterns :: "pattern list" where
  "amountPatterns =
     [\<lparr> p_before = Cat (lit_i ''TOTAL'')
                  (Cat (Star (Chars (CHR '':'' # white_space))) (opt_re (Chars ''$''))),
        p_group = number, p_after = Eps \<rparr>,
      \<lparr> p_before = Cat (lit_i ''AMOUNT'')
                  (Cat (Star (Chars (CHR '':'' # white_space))) (opt_re (Chars ''$''))),
        p_group = number, p_after = Eps \<rparr>,
      \<lparr> p_before = Chars ''$'', p_group = number, p_after = Eps \<rparr>,
      \<lparr> p_before = Eps, p_group = number, p_after = Cat (Star (Chars white_space)) (lit_i ''USD'') \<rparr>,
      \<lparr> p_before = Eps, p_group = number, p_after = Cat (Star (Chars white_space)) (lit_i ''EUR'') \<rparr>,
      \<lparr> p_before = Eps, p_group = number, p_after = Cat (Star (Chars white_space)) (lit_i ''GBP'') \<rparr>]"

definition date_sep :: re where
  "date_sep = Chars ''/-''"

text \<open>
  \<^verbatim>\<open>/(\d{1,2}[\/\-]\d{1,2}[\/\-]\d{2,4})/\<close>, \<^verbatim>\<open>/(\d{4}[\/\-]\d{1,2}[\/\-]\d{1,2})/\<close>,
  \<^verbatim>\<open>/(Jan|Feb|Mar|Apr|May|Jun|Jul|Aug|Sep|Oct|Nov|Dec)[\s,]*\d{1,2}[\s,]*\d{2,4}/i\<close>.
  In the third the group holds the name of the month only.
\<close>

definition datePatterns :: "pattern list" where
  "datePatterns =
     [\<lparr> p_before = Eps,
        p_group = Cat (Repeat 1 2 digit)
                   (Cat date_sep (Cat (Repeat 1 2 digit) (Cat date_sep (Repeat 2 4 digit)))),
        p_after = Eps \<rparr>,
      \<lparr> p_before = Eps,
        p_group = Cat (Repeat 4 4 digit)
                   (Cat date_sep (Cat (Repeat 1 2 digit) (Cat date_sep (Repeat 1 2 digit)))),
        p_after = Eps \<rparr>,
      \<lparr> p_before = Eps,
        p_group = alts (map lit_i [''Jan'', ''Feb'', ''Mar'', ''Apr'', ''May'', ''Jun'', ''Jul'',
                   ''Aug'', ''Sep'', ''Oct'', ''Nov'', ''Dec'']),
        p_after = Cat (Star (Chars (CHR '','' # white_space)))
                  (Cat (Repeat 1 2 digit)
                     (Cat (Star (Chars (CHR '','' # white_space))) (Repeat 2 4 digit))) \<rparr>]"

subsection \<open>The parser\<close>

definition is_digit :: "char \<Rightarrow> bool" where
  "is_digit c = (c \<in> set ''0123456789'')"

definition digit_val :: "char \<Rightarrow> nat" where
  "digit_val c = length (takeWhile (\<lambda>d. d \<noteq> c) ''0123456789'')"

definition digits_val :: "string \<Rightarrow> nat" where
  "digits_val ds = foldl (\<lambda>n c. 10 * n + digit_val c) 0 ds"

text \<open>\<open>parseFloat\<close> on a string of the shape \<open>\d+\.?\d*\<close>, which is what the group of an
  amount pattern captures: the decimal it denotes.\<close>

definition parseFloat :: "string \<Rightarrow> rat" where
  "parseFloat s =
     (let ip = takeWhile is_digit s;
          fp = (case dropWhile is_digit s of
                  [] \<Rightarrow> []
                | c # t \<Rightarrow> if c = CHR ''.'' then takeWhile is_digit t else [])
      in of_nat (digits_val ip) + of_nat (digits_val fp) / 10 ^ length fp)"

text \<open>The variable \<open>date\<close>: \<open>null\<close>, a \<open>Date\<close> object whose time value is \<open>NaN\<close>, or a \<open>Date\<close>
  object with a time value. \<open>new Date(string)\<close> is the host's date parser, a parameter of
  the model: \<open>Date_parse s\<close> is the time value, \<open>None\<close> when it is \<open>NaN\<close>.\<close>

datatype js_date = Null | Invalid_Date | Valid int

record receipt =
  r_merchantName :: string
  r_amount :: rat
  r_date :: js_date
  r_category :: string
  r_confidence :: rat

definition businessKeywords :: "string list" where
  "businessKeywords =
     [''LTD'', ''INC'', ''CORP'', ''LLC'', ''STORE'', ''SHOP'', ''RESTAURANT'', ''HOTEL'']"

definition categoryKeywords :: "(string \<times> string list) list" where
  "categoryKeywords =
     [(''Travel'', [''airline'', ''flight'', ''taxi'', ''uber'', ''lyft'', ''train'', ''bus'',
         ''metro'']),
      (''Food'', [''restaurant'', ''cafe'', ''coffee'', ''food'', ''dining'', ''pizza'',
         ''burger'']),
      (''Stay'', [''hotel'', ''motel'', ''accommodation'', ''lodging'', ''airbnb'']),
      (''Transportation'', [''gas'', ''fuel'', ''parking'', ''toll'', ''highway'']),
      (''Office Supplies'', [''office'', ''stationery'', ''supplies'', ''staples'']),
      (''Entertainment'', [''movie'', ''cinema'', ''theater'', ''concert'', ''sports''])]"

text \<open>The merchant: the first line that contains a business keyword, else the first line,
  else the empty string.\<close>

definition extract_merchant :: "string list \<Rightarrow> string" where
  "extract_merchant ls =
     (case find (\<lambda>line. list_ex (\<lambda>keyword. String_includes (toUpperCase line) keyword)
                   businessKeywords) ls of
        Some line \<Rightarrow> line
      | None \<Rightarrow> (case ls of [] \<Rightarrow> [] | l # _ \<Rightarrow> l))"

text \<open>The inner loop of the amount search: the first line the pattern matches sets the
  amount, adds 0.3 and ends the loop.\<close>

fun amount_lines :: "pattern \<Rightarrow> string list \<Rightarrow> rat \<times> rat \<Rightarrow> rat \<times> rat" where
  "amount_lines p [] (amount, confidence) = (amount, confidence)"
| "amount_lines p (line # ls) (amount, confidence) =
     (case js_match p line of
        None \<Rightarrow> amount_lines p ls (amount, confidence)
      | Some m \<Rightarrow> (parseFloat (snd m), confidence + 3 / 10))"

text \<open>The outer loop: \<open>if (amount > 0) break\<close> after each pattern.\<close>

fun amount_patterns :: "pattern list \<Rightarrow> string list \<Rightarrow> rat \<times> rat \<Rightarrow> rat \<times> rat" where
  "amount_patterns [] ls st = st"
| "amount_patterns (p # ps) ls st =
     (let st' = amount_lines p ls st
      in if fst st' > 0 then st' else amount_patterns ps ls st')"

text \<open>The inner loop of the date search: a matching line assigns \<open>date\<close>; a time value
  that is not \<open>NaN\<close> adds 0.2 and ends the loop, otherwise the loop goes on with the
  invalid \<open>Date\<close> object in \<open>date\<close>.\<close>

fun date_lines ::
  "(string \<Rightarrow> int option) \<Rightarrow> pattern \<Rightarrow> string list \<Rightarrow> js_date \<times> rat \<Rightarrow> js_date \<times> rat" where
  "date_lines Date_parse p [] (date, confidence) = (date, confidence)"
| "date_lines Date_parse p (line # ls) (date, confidence) =
     (case js_match p line of
        None \<Rightarrow> date_lines Date_parse p ls (date, confidence)
      | Some m \<Rightarrow>
          (case Date_parse (snd m) of
             Some t \<Rightarrow> (Valid t, confidence + 2 / 10)
           | None \<Rightarrow> date_lines Date_parse p ls (Invalid_Date, confidence)))"

text \<open>The outer loop: \<open>if (date) break\<close> after each pattern; every \<open>Date\<close> object is truthy.\<close>

fun date_patterns ::
  "(string \<Rightarrow> int option) \<Rightarrow> pattern list \<Rightarrow> string list \<Rightarrow> js_date \<times> rat \<Rightarrow> js_date \<times> rat" where
  "date_patterns Date_parse [] ls st = st"
| "date_patterns Date_parse (p # ps) ls st =
     (let st' = date_lines Date_parse p ls st
      in if fst st' \<noteq> Null then st' else date_patterns Date_parse ps ls st')"

definition categorize :: "string \<Rightarrow> rat \<Rightarrow> string \<times> rat" where
  "categorize merchantLower confidence =
     (case find (\<lambda>entry. list_ex (\<lambda>keyword. String_includes merchantLower keyword) (snd entry))
             categoryKeywords of
        Some entry \<Rightarrow> (fst entry, confidence + 1 / 10)
      | None \<Rightarrow> (''Other'', confidence))"

definition parseReceiptText :: "(string \<Rightarrow> int option) \<Rightarrow> string \<Rightarrow> receipt" where
  "parseReceiptText Date_parse text =
     (let ls = lines_of text;
          merchantName = extract_merchant ls;
          (amount, confidence1) = amount_patterns amountPatterns ls (0, 0);
          (date, confidence2) = date_patterns Date_parse datePatterns ls (Null, confidence1);
          (category, confidence3) = categorize (toLowerCase merchantName) confidence2
      in \<lparr> r_merchantName = merchantName, r_amount = amount, r_date = date,
           r_category = category, r_confidence = min confidence3 1 \<rparr>)"

section \<open>Example stores\<close>

text \<open>One company (1), one expense (100) of employee 20, whose manager is user 10; user 11
  is a finance officer and user 12 an administrator.\<close>

definition wf_user :: "ObjectId \<Rightarrow> role \<Rightarrow> User" where
  "wf_user i r = \<lparr> u_id = i, u_role = r, u_company = 1, u_manager = None, u_isActive = True \<rparr>"

definition wf_approval :: "ObjectId \<Rightarrow> ObjectId \<Rightarrow> role \<Rightarrow> approval_status \<Rightarrow> int \<Rightarrow> Approval" where
  "wf_approval i approver r st p =
     \<lparr> a_id = i, a_expense = 100, a_approver = approver, a_role = r, a_status = st,
       a_comments = None, a_actionDate = None, a_priority = p, a_escalationReason = None,
       a_escalatedTo = None, a_escalationDate = None, a_isUrgent = False \<rparr>"

definition wf_expense :: "expense_status \<Rightarrow> rat \<Rightarrow> Expense" where
  "wf_expense st amt =
     \<lparr> e_id = 100, e_employee = 20, e_company = 1, e_amount = amt, e_status = st,
       e_currentApprover = (if st = E_draft then None else Some 10), e_rejectionReason = None,
       e_approvedBy = None, e_approvedAt = None \<rparr>"

definition wf_db :: "Approval list \<Rightarrow> Expense \<Rightarrow> rat \<Rightarrow> db" where
  "wf_db as e limit =
     \<lparr> approvals = as, expenses = [e],
       users = [wf_user 10 Manager, wf_user 11 Finance, wf_user 12 Admin,
                (wf_user 20 Employee)\<lparr>u_manager := Some 10\<rparr>],
       companies = [\<lparr> c_id = 1, c_autoApprovalLimit = Some limit \<rparr>] \<rparr>"

definition one_pending :: db where
  "one_pending = wf_db [wf_approval 1 10 Manager A_pending 1] (wf_expense E_pending_manager 500) 100"

definition two_pending :: db where
  "two_pending = wf_db [wf_approval 1 10 Manager A_pending 1, wf_approval 2 11 Finance A_pending 2]
     (wf_expense E_pending_manager 500) 100"

definition three_pending :: db where
  "three_pending = wf_db [wf_approval 1 10 Manager A_pending 1, wf_approval 2 11 Finance A_pending 2,
       wf_approval 3 12 Director A_pending 3] (wf_expense E_pending_manager 500) 100"

definition three_equal_priority :: db where
  "three_equal_priority = wf_db [wf_approval 1 10 Manager A_pending 1,
       wf_approval 2 11 Finance A_pending 1, wf_approval 3 12 Director A_pending 1]
     (wf_expense E_pending_manager 500) 100"

definition already_approved :: db where
  "already_approved = wf_db [wf_approval 1 10 Manager A_approved 1] (wf_expense E_approved 500) 100"

definition draft_db :: "rat \<Rightarrow> rat \<Rightarrow> db" where
  "draft_db amt limit = wf_db [] (wf_expense E_draft amt) limit"

definition employee_20 :: User where
  "employee_20 = (wf_user 20 Employee)\<lparr>u_manager := Some 10\<rparr>"

definition no_comment :: approve_body where
  "no_comment = \<lparr> ab_comments = None, ab_isUrgent = None \<rparr>"

definition out_of_policy :: reject_body where
  "out_of_policy = \<lparr> rb_comments = Some ''out of policy'', rb_rejectionReason = None \<rparr>"

definition escalate_to :: "ObjectId \<Rightarrow> escalate_body" where
  "escalate_to t = \<lparr> eb_comments = None, eb_escalationReason = Some ''needs a second opinion'',
      eb_escalatedTo = t \<rparr>"


text \<open>
  Receipt texts, and a date parser that accepts nothing.
\<close>

definition no_dates :: "string \<Rightarrow> int option" where
  "no_dates s = None"

definition cafe_text :: string where
  "cafe_text = ''Corner Cafe'' @ [CHR 0x0A] @ ''  $5.00 '' @ [CHR 0x0A] @ ''10 USD''"

definition total_text :: string where
  "total_text = ''ACME STORE'' @ [CHR 0x0A] @ ''TOTAL: $42.50'' @ [CHR 0x0A] @ ''$50.00''"

definition zero_total_text :: string where
  "zero_total_text = ''TOTAL: 0'' @ [CHR 0x0A] @ ''$5.00''"

section \<open>Lemmas about the model layer\<close>

lemmas wf_defs = wf_user_def wf_approval_def wf_expense_def wf_db_def

lemmas ex_defs = one_pending_def two_pending_def three_pending_def three_equal_priority_def
  already_approved_def draft_db_def employee_20_def no_comment_def out_of_policy_def
  escalate_to_def

lemmas route_defs = approve_def reject_def escalate_def submit_def Approval_findById_def
  Expense_findById_def User_findById_def Company_findById_def Approval_save_def
  Approval_insert_def Expense_save_def Approval_validate_def approvalSchema_role_enum_def
  Approval_find_pending_def Approval_findOne_next_def new_Approval_def fresh_id_def
  or_string_def or_bool_def or_number_def Let_def

lemma find_replace:
  "find (\<lambda>x. f x = i) xs = Some a \<Longrightarrow> f b = i \<Longrightarrow>
   find (\<lambda>x. f x = i) (map (\<lambda>x. if f x = f b then b else x) xs) = Some b"
  by (induction xs) (auto split: if_splits)

lemma find_key: "find (\<lambda>x. f x = i) xs = Some a \<Longrightarrow> f a = i"
  by (induction xs) (auto split: if_splits)

lemma Approval_findById_id: "Approval_findById s i = Some a \<Longrightarrow> a_id a = i"
  unfolding Approval_findById_def by (rule find_key)

lemma Expense_findById_id: "Expense_findById s i = Some e \<Longrightarrow> e_id e = i"
  unfolding Expense_findById_def by (rule find_key)

lemma Approval_findById_save:
  "Approval_findById s i = Some a \<Longrightarrow> a_id b = i \<Longrightarrow> Approval_save b s = Inr s1 \<Longrightarrow>
   Approval_findById s1 i = Some b"
  unfolding Approval_findById_def Approval_save_def
  by (auto split: if_splits simp: find_replace)

lemma Expense_findById_Approval_save:
  "Approval_save b s = Inr s1 \<Longrightarrow> Expense_findById s1 j = Expense_findById s j"
  unfolding Expense_findById_def Approval_save_def by (auto split: if_splits)

lemma Expense_findById_save:
  "Expense_findById s i = Some e \<Longrightarrow> e_id e' = i \<Longrightarrow>
   Expense_findById (Expense_save e' s) i = Some e'"
  unfolding Expense_findById_def Expense_save_def
  using find_replace[of e_id i "expenses s" e e'] by simp

lemma Approval_findById_Expense_save:
  "Approval_findById (Expense_save e s) i = Approval_findById s i"
  unfolding Approval_findById_def Expense_save_def by simp

lemma approvals_Expense_save: "approvals (Expense_save e s) = approvals s"
  unfolding Expense_save_def by simp

lemma Approval_find_pending_Expense_save:
  "Approval_find_pending (Expense_save e s) ex = Approval_find_pending s ex"
  by (simp add: Approval_find_pending_def Expense_save_def)

lemma Approval_findOne_next_Expense_save:
  "Approval_findOne_next (Expense_save e s) ex p = Approval_findOne_next s ex p"
  by (simp add: Approval_findOne_next_def Expense_save_def)

lemma filter_replace_not:
  "\<not> P b \<Longrightarrow> filter P (map (\<lambda>x. if f x = i then b else x) xs) = filter (\<lambda>x. f x \<noteq> i) (filter P xs)"
  by (induction xs) auto

lemma User_findById_Approval_save:
  "Approval_save b s = Inr s1 \<Longrightarrow> User_findById s1 j = User_findById s j"
  unfolding User_findById_def Approval_save_def by (auto split: if_splits)

text \<open>The head of a list sorted by a key is an element of least key.\<close>

lemma sort_key_head_least:
  assumes "sort_key f xs = n # rest"
  shows "n \<in> set xs \<and> (\<forall>m\<in>set xs. f n \<le> f m)"
proof -
  have "sorted (map f (sort_key f xs))" by (rule sorted_sort_key)
  then have "\<forall>m\<in>set rest. f n \<le> f m" using assms by simp
  moreover have "set (n # rest) = set xs" using assms set_sort[of f xs] by simp
  ultimately show ?thesis by auto
qed

lemma Approval_findOne_next_Some:
  assumes "Approval_findOne_next s ex p = Some n"
  shows "n \<in> set (approvals s) \<and> a_expense n = ex \<and> a_status n = A_pending \<and> p < a_priority n \<and>
         (\<forall>m\<in>set (approvals s). a_expense m = ex \<and> a_status m = A_pending \<and> p < a_priority m
            \<longrightarrow> a_priority n \<le> a_priority m)"
proof -
  let ?c = "filter (\<lambda>a. a_expense a = ex \<and> a_status a = A_pending \<and> p < a_priority a) (approvals s)"
  obtain rest where "sort_key a_priority ?c = n # rest"
    using assms by (auto simp: Approval_findOne_next_def split: list.splits)
  from sort_key_head_least[OF this] show ?thesis by auto
qed

lemma Approval_findOne_next_None:
  assumes "Approval_findOne_next s ex p = None"
  shows "\<forall>m\<in>set (approvals s). \<not> (a_expense m = ex \<and> a_status m = A_pending \<and> p < a_priority m)"
proof -
  let ?c = "filter (\<lambda>a. a_expense a = ex \<and> a_status a = A_pending \<and> p < a_priority a) (approvals s)"
  have "sort_key a_priority ?c = []"
    using assms by (auto simp: Approval_findOne_next_def split: list.splits)
  then have "set ?c = {}" using set_sort[of a_priority ?c] by simp
  then show ?thesis by (auto simp: filter_empty_conv)
qed

lemma approve_steps:
  assumes found: "Approval_findById s i = Some a"
    and caller: "a_approver a = u_id user"
    and pending: "a_status a = A_pending"
    and valid: "Approval_validate a"
    and expense: "Expense_findById s (a_expense a) = Some e"
    and a'_def: "a' = a\<lparr>a_status := A_approved, a_comments := ab_comments body,
                  a_actionDate := Some now, a_isUrgent := or_bool (ab_isUrgent body) False\<rparr>"
  shows "\<exists>s1 e'. Approval_save a' s = Inr s1 \<and> approve user i body now s = (Inr a', Expense_save e' s1) \<and>
           Approval_findById s1 i = Some a' \<and> e_id e' = a_expense a \<and>
           Expense_findById (Expense_save e' s1) (a_expense a) = Some e' \<and>
           e' = (if length (Approval_find_pending s1 (a_expense a)) \<le> 1
                 then e\<lparr>e_status := E_approved, e_approvedBy := Some (u_id user), e_approvedAt := Some now\<rparr>
                 else (case Approval_findOne_next s1 (a_expense a) (a_priority a) of
                         None \<Rightarrow> e
                       | Some n \<Rightarrow> e\<lparr>e_currentApprover := Some (a_approver n),
                            e_status := (if a_role n = Finance then E_pending_finance
                                         else if a_role n = Director then E_pending_director
                                         else e_status e)\<rparr>))"
proof -
  have "Approval_validate a'" using valid by (simp add: Approval_validate_def a'_def)
  then obtain s1 where s1: "Approval_save a' s = Inr s1" by (simp add: Approval_save_def)
  have aid: "a_id a' = i" using Approval_findById_id[OF found] by (simp add: a'_def)
  have fa: "Approval_findById s1 i = Some a'" by (rule Approval_findById_save[OF found aid s1])
  have fe: "Expense_findById s1 (a_expense a) = Some e"
    using Expense_findById_Approval_save[OF s1] expense by simp
  have eid: "e_id e = a_expense a" by (rule Expense_findById_id[OF expense])
  let ?e' = "(if length (Approval_find_pending s1 (a_expense a)) \<le> 1
                 then e\<lparr>e_status := E_approved, e_approvedBy := Some (u_id user), e_approvedAt := Some now\<rparr>
                 else (case Approval_findOne_next s1 (a_expense a) (a_priority a) of
                         None \<Rightarrow> e
                       | Some n \<Rightarrow> e\<lparr>e_currentApprover := Some (a_approver n),
                            e_status := (if a_role n = Finance then E_pending_finance
                                         else if a_role n = Director then E_pending_director
                                         else e_status e)\<rparr>))"
  have eid': "e_id ?e' = a_expense a" using eid by (simp split: option.splits)
  have r: "approve user i body now s = (Inr a', Expense_save ?e' s1)"
    using found caller pending s1 fe eid
    by (simp add: approve_def a'_def Let_def split: option.splits)
  have "Expense_findById (Expense_save ?e' s1) (a_expense a) = Some ?e'"
    by (rule Expense_findById_save[OF fe eid'])
  with s1 r fa eid' show ?thesis by blast
qed

section \<open>Lemmas about the receipt parser\<close>

lemma amount_lines_no_match:
  "\<forall>l\<in>set ls. js_match p l = None \<Longrightarrow> amount_lines p ls st = st"
  by (cases st, induction ls) auto

lemma amount_lines_first_match:
  "\<forall>l\<in>set pre. js_match p l = None \<Longrightarrow> js_match p line = Some m \<Longrightarrow>
   amount_lines p (pre @ line # post) (a, c) = (parseFloat (snd m), c + 3 / 10)"
  by (induction pre) auto

lemma amount_patterns_skip:
  "\<forall>q\<in>set qs. \<forall>l\<in>set ls. js_match q l = None \<Longrightarrow> \<not> 0 < fst st \<Longrightarrow>
   amount_patterns (qs @ rest) ls st = amount_patterns rest ls st"
  by (induction qs) (auto simp: amount_lines_no_match)

lemma amount_patterns_first_positive:
  assumes "\<forall>q\<in>set qs. \<forall>l\<in>set (pre @ line # post). js_match q l = None"
    and "\<forall>l\<in>set pre. js_match p l = None"
    and "js_match p line = Some m"
    and "0 < parseFloat (snd m)"
  shows "amount_patterns (qs @ p # ps) (pre @ line # post) (0, c) = (parseFloat (snd m), c + 3 / 10)"
proof -
  have "amount_patterns (qs @ p # ps) (pre @ line # post) (0, c) =
        amount_patterns (p # ps) (pre @ line # post) (0, c)"
    using assms(1) by (intro amount_patterns_skip) auto
  also have "\<dots> = (parseFloat (snd m), c + 3 / 10)"
    using amount_lines_first_match[OF assms(2,3)] assms(4) by simp
  finally show ?thesis .
qed

lemma date_lines_mono: "snd st \<le> snd (date_lines D p ls st)"
proof (induction ls arbitrary: st)
  case Nil
  show ?case by (cases st) simp
next
  case (Cons l ls)
  obtain d c where st: "st = (d, c)" by (cases st)
  show ?case
  proof (cases "js_match p l")
    case None
    then show ?thesis using Cons[of "(d, c)"] by (simp add: st)
  next
    case (Some m)
    then show ?thesis using Cons[of "(Invalid_Date, c)"] by (cases "D (snd m)") (simp_all add: st)
  qed
qed

lemma date_patterns_mono: "snd st \<le> snd (date_patterns D ps ls st)"
proof (induction ps arbitrary: st)
  case Nil
  show ?case by simp
next
  case (Cons p ps)
  have "snd st \<le> snd (date_lines D p ls st)" by (rule date_lines_mono)
  also have "\<dots> \<le> snd (date_patterns D ps ls (date_lines D p ls st))" by (rule Cons)
  finally show ?case using date_lines_mono[of st D p ls] by (simp add: Let_def)
qed

lemma categorize_mono: "c \<le> snd (categorize m c)"
  by (simp add: categorize_def split: option.splits)

lemma parseReceiptText_amount:
  "r_amount (parseReceiptText D input) = fst (amount_patterns amountPatterns (lines_of input) (0, 0))"
  by (simp add: parseReceiptText_def Let_def split_def)

lemma parseReceiptText_confidence_ge:
  "min (snd (amount_patterns amountPatterns (lines_of input) (0, 0))) 1 \<le> r_confidence (parseReceiptText D input)"
proof -
  let ?a = "amount_patterns amountPatterns (lines_of input) (0, 0)"
  let ?d = "date_patterns D datePatterns (lines_of input) (Null, snd ?a)"
  let ?c = "categorize (toLowerCase (extract_merchant (lines_of input))) (snd ?d)"
  have r: "r_confidence (parseReceiptText D input) = min (snd ?c) 1"
    by (simp add: parseReceiptText_def Let_def split_def)
  have "snd ?a \<le> snd ?d" using date_patterns_mono[of "(Null, snd ?a)"] by simp
  also have "\<dots> \<le> snd ?c" by (rule categorize_mono)
  finally show ?thesis unfolding r by (rule min.mono) simp
qed

lemma parseReceiptText_confidence_le: "r_confidence (parseReceiptText D input) \<le> 1"
  by (simp add: parseReceiptText_def Let_def split_def)

lemma amount_lines_mono: "snd st \<le> snd (amount_lines p ls st)"
  by (cases st, induction ls) (auto split: option.splits)

lemma amount_patterns_mono: "snd st \<le> snd (amount_patterns ps ls st)"
proof (induction ps arbitrary: st)
  case Nil
  show ?case by simp
next
  case (Cons p ps)
  have "snd st \<le> snd (amount_lines p ls st)" by (rule amount_lines_mono)
  also have "\<dots> \<le> snd (amount_patterns ps ls (amount_lines p ls st))" by (rule Cons)
  finally show ?case using amount_lines_mono[of st p ls] by (simp add: Let_def)
qed

lemma date_lines_no_match:
  "\<forall>l\<in>set ls. js_match p l = None \<Longrightarrow> date_lines D p ls st = st"
  by (cases st, induction ls) auto

lemma date_lines_first_valid:
  "\<forall>l\<in>set pre. js_match p l = None \<Longrightarrow> js_match p line = Some m \<Longrightarrow> D (snd m) = Some t \<Longrightarrow>
   date_lines D p (pre @ line # post) (d, c) = (Valid t, c + 2 / 10)"
  by (induction pre) auto

lemma date_patterns_skip:
  "\<forall>q\<in>set qs. \<forall>l\<in>set ls. js_match q l = None \<Longrightarrow> fst st = Null \<Longrightarrow>
   date_patterns D (qs @ rest) ls st = date_patterns D rest ls st"
  by (induction qs) (auto simp: date_lines_no_match)

section \<open>The approval workflow\<close>

subsection \<open>Approve\<close>

text \<open>
  When no approval of the expense is pending after the acted one has been saved, the
  expense is approved and stamped with the caller and the time.
\<close>

lemma approve_last_pending:
  assumes found: "Approval_findById s i = Some a"
    and caller: "a_approver a = u_id user"
    and pending: "a_status a = A_pending"
    and valid: "Approval_validate a"
    and expense: "Expense_findById s (a_expense a) = Some e"
    and last: "Approval_find_pending (snd (approve user i body now s)) (a_expense a) = []"
  shows "Expense_findById (snd (approve user i body now s)) (a_expense a) =
           Some (e\<lparr>e_status := E_approved, e_approvedBy := Some (u_id user),
                   e_approvedAt := Some now\<rparr>)"
proof -
  obtain s1 e' where s1: "approve user i body now s =
        (Inr (a\<lparr>a_status := A_approved, a_comments := ab_comments body,
                a_actionDate := Some now, a_isUrgent := or_bool (ab_isUrgent body) False\<rparr>),
         Expense_save e' s1)"
    and fe: "Expense_findById (Expense_save e' s1) (a_expense a) = Some e'"
    and e': "e' = (if length (Approval_find_pending s1 (a_expense a)) \<le> 1
                 then e\<lparr>e_status := E_approved, e_approvedBy := Some (u_id user),
                        e_approvedAt := Some now\<rparr>
                 else (case Approval_findOne_next s1 (a_expense a) (a_priority a) of
                         None \<Rightarrow> e
                       | Some n \<Rightarrow> e\<lparr>e_currentApprover := Some (a_approver n),
                            e_status := (if a_role n = Finance then E_pending_finance
                                         else if a_role n = Director then E_pending_director
                                         else e_status e)\<rparr>))"
    using approve_steps[OF found caller pending valid expense refl, of body now] by blast
  have "Approval_find_pending s1 (a_expense a) = []"
    using last by (simp add: s1 Approval_find_pending_Expense_save)
  then show ?thesis using e' fe by (simp add: s1)
qed

text \<open>
  Claim C1: after a successful approve, the expense is set to \<open>approved\<close> (with
  \<open>approvedBy\<close> and \<open>approvedAt\<close>) if and only if the acted approval was the last pending
  one of the expense, the pending approvals being counted after the acted one has been
  marked approved. The handler's test is \<open>remainingApprovals.length <= 1\<close>, and the
  count no longer includes the acted approval: in the store \<open>two_pending\<close> the manager
  (user 10) approves approval 1, approval 2 of the finance officer is still pending
  afterwards, and the expense is approved all the same.
\<close>

theorem approve_with_one_still_pending:
  "map_sum id a_status (fst (approve (wf_user 10 Manager) 1 no_comment 7 two_pending))
     = Inr A_approved \<and>
   map_option e_status
     (Expense_findById (snd (approve (wf_user 10 Manager) 1 no_comment 7 two_pending)) 100)
     = Some E_approved \<and>
   map_option e_approvedBy
     (Expense_findById (snd (approve (wf_user 10 Manager) 1 no_comment 7 two_pending)) 100)
     = Some (Some 10) \<and>
   map a_id
     (Approval_find_pending (snd (approve (wf_user 10 Manager) 1 no_comment 7 two_pending)) 100)
     = [2]"
  by (simp add: ex_defs wf_defs route_defs)

text \<open>
  Claim C5, as amended: when an approve succeeds and more than one approval of the
  expense is still pending afterwards, then either some pending approval of the expense
  has a priority strictly greater than the acted one's, and for one of least such
  priority the expense's \<open>currentApprover\<close> is its approver and the expense's status is
  \<open>pending_finance\<close> for the role finance, \<open>pending_director\<close> for the role director and
  unchanged for the role manager; or no pending approval of the expense has a greater
  priority, and the expense is left as it was.
\<close>

theorem approve_promotes_next:
  assumes found: "Approval_findById s i = Some a"
    and caller: "a_approver a = u_id user"
    and pending: "a_status a = A_pending"
    and valid: "Approval_validate a"
    and expense: "Expense_findById s (a_expense a) = Some e"
    and more: "1 < length (Approval_find_pending (snd (approve user i body now s)) (a_expense a))"
  shows "(\<exists>n\<in>set (approvals (snd (approve user i body now s))).
            a_expense n = a_expense a \<and> a_status n = A_pending \<and>
            a_priority a < a_priority n \<and>
            (\<forall>m\<in>set (approvals (snd (approve user i body now s))).
               a_expense m = a_expense a \<and> a_status m = A_pending \<and>
               a_priority a < a_priority m
               \<longrightarrow> a_priority n \<le> a_priority m) \<and>
            Expense_findById (snd (approve user i body now s)) (a_expense a) =
              Some (e\<lparr>e_currentApprover := Some (a_approver n),
                      e_status := (if a_role n = Finance then E_pending_finance
                                   else if a_role n = Director then E_pending_director
                                   else e_status e)\<rparr>))
         \<or> ((\<forall>m\<in>set (approvals (snd (approve user i body now s))).
               \<not> (a_expense m = a_expense a \<and> a_status m = A_pending \<and>
                  a_priority a < a_priority m)) \<and>
            Expense_findById (snd (approve user i body now s)) (a_expense a) = Some e)"
proof -
  obtain s1 e' where s1: "approve user i body now s =
        (Inr (a\<lparr>a_status := A_approved, a_comments := ab_comments body,
                a_actionDate := Some now, a_isUrgent := or_bool (ab_isUrgent body) False\<rparr>),
         Expense_save e' s1)"
    and fe: "Expense_findById (Expense_save e' s1) (a_expense a) = Some e'"
    and e': "e' = (if length (Approval_find_pending s1 (a_expense a)) \<le> 1
                 then e\<lparr>e_status := E_approved, e_approvedBy := Some (u_id user),
                        e_approvedAt := Some now\<rparr>
                 else (case Approval_findOne_next s1 (a_expense a) (a_priority a) of
                         None \<Rightarrow> e
                       | Some n \<Rightarrow> e\<lparr>e_currentApprover := Some (a_approver n),
                            e_status := (if a_role n = Finance then E_pending_finance
                                         else if a_role n = Director then E_pending_director
                                         else e_status e)\<rparr>))"
    using approve_steps[OF found caller pending valid expense refl, of body now] by blast
  let ?s' = "snd (approve user i body now s)"
  have s': "?s' = Expense_save e' s1" using s1 by simp
  have ap: "approvals ?s' = approvals s1" by (simp add: s' approvals_Expense_save)
  have gt: "\<not> length (Approval_find_pending s1 (a_expense a)) \<le> 1"
    using more by (simp add: s' Approval_find_pending_Expense_save)
  show ?thesis
  proof (cases "Approval_findOne_next s1 (a_expense a) (a_priority a)")
    case None
    have "e' = e" using e' gt None by simp
    with fe Approval_findOne_next_None[OF None] show ?thesis
      unfolding ap unfolding s' by blast
  next
    case (Some n)
    have "e' = e\<lparr>e_currentApprover := Some (a_approver n),
                  e_status := (if a_role n = Finance then E_pending_finance
                               else if a_role n = Director then E_pending_director
                               else e_status e)\<rparr>"
      using e' gt Some by simp
    with fe Approval_findOne_next_Some[OF Some] show ?thesis
      unfolding ap unfolding s' by blast
  qed
qed

text \<open>
  In the store \<open>three_pending\<close> the manager approves approval 1 (priority 1); approvals 2
  (finance, priority 2) and 3 (director, priority 3) stay pending, and the expense moves
  to the finance officer.
\<close>

theorem approve_promotes_next_witness:
  "Expense_findById (snd (approve (wf_user 10 Manager) 1 no_comment 7 three_pending)) 100 =
     Some ((wf_expense E_pending_manager 500)\<lparr>e_currentApprover := Some 11,
              e_status := E_pending_finance\<rparr>) \<and>
   length (Approval_find_pending
             (snd (approve (wf_user 10 Manager) 1 no_comment 7 three_pending)) 100) = 2"
proof -
  let ?s' = "snd (approve (wf_user 10 Manager) 1 no_comment 7 three_pending)"
  let ?a = "wf_approval 1 10 Manager A_pending 1"
  let ?e = "wf_expense E_pending_manager 500"
  have h1: "Approval_findById three_pending 1 = Some ?a"
    by (simp add: ex_defs wf_defs Approval_findById_def)
  have h2: "a_approver ?a = u_id (wf_user 10 Manager)" by (simp add: wf_defs)
  have h3: "a_status ?a = A_pending" by (simp add: wf_defs)
  have h4: "Approval_validate ?a"
    by (simp add: wf_defs Approval_validate_def approvalSchema_role_enum_def)
  have h5: "Expense_findById three_pending (a_expense ?a) = Some ?e"
    by (simp add: ex_defs wf_defs Expense_findById_def)
  have ap: "approvals ?s' = [?a\<lparr>a_status := A_approved, a_actionDate := Some 7\<rparr>,
       wf_approval 2 11 Finance A_pending 2, wf_approval 3 12 Director A_pending 3]"
    by (simp add: ex_defs wf_defs route_defs)
  have p: "length (Approval_find_pending ?s' (a_expense ?a)) = 2"
    by (simp add: ex_defs wf_defs route_defs)
  then have h6: "1 < length (Approval_find_pending ?s' (a_expense ?a))" by simp
  have ex: "a_expense ?a = 100" by (simp add: wf_defs)
  from approve_promotes_next[OF h1 h2 h3 h4 h5 h6]
  have "Expense_findById ?s' 100 =
          Some (?e\<lparr>e_currentApprover := Some 11, e_status := E_pending_finance\<rparr>)"
    unfolding ap ex by (auto simp: wf_defs)
  with p show ?thesis unfolding ex by simp
qed

text \<open>
  Claim C5 as stated fails where no pending approval has a greater priority: in the
  store \<open>three_equal_priority\<close> all three approvals have the schema's default priority 1.
  After the manager approves approval 1, two approvals are still pending, none is
  selected, and the expense keeps its status and its \<open>currentApprover\<close> (user 10, who has
  just acted).
\<close>

theorem approve_without_next_counterexample:
  "map_sum id a_status (fst (approve (wf_user 10 Manager) 1 no_comment 7 three_equal_priority))
     = Inr A_approved \<and>
   length (Approval_find_pending
             (snd (approve (wf_user 10 Manager) 1 no_comment 7 three_equal_priority)) 100) = 2 \<and>
   Expense_findById (snd (approve (wf_user 10 Manager) 1 no_comment 7 three_equal_priority)) 100 =
     Some (wf_expense E_pending_manager 500) \<and>
   e_currentApprover (wf_expense E_pending_manager 500) = Some 10 \<and>
   e_status (wf_expense E_pending_manager 500) = E_pending_manager"
  by (simp add: ex_defs wf_defs route_defs)

subsection \<open>Reject\<close>

text \<open>
  Claim C4: when the approver of a pending approval rejects it, that approval's status
  becomes \<open>rejected\<close> and the expense's status becomes \<open>rejected\<close>, whatever other
  approvals of the expense are pending; the expense's \<open>rejectionReason\<close> is the rejection
  reason of the request or, when the request has none, its comments. The approval is a
  stored document (it satisfies the schema) and the body has passed the request
  validation.
\<close>

theorem reject_ends_workflow:
  assumes found: "Approval_findById s i = Some a"
    and caller: "a_approver a = u_id user"
    and pending: "a_status a = A_pending"
    and valid: "Approval_validate a"
    and body: "approvalValidation_reject body"
    and expense: "Expense_findById s (a_expense a) = Some e"
  shows "\<exists>a' e' s'. reject user i body now s = (Inr a', s') \<and>
           Approval_findById s' i = Some a' \<and> a_status a' = A_rejected \<and>
           Expense_findById s' (a_expense a) = Some e' \<and> e_status e' = E_rejected \<and>
           e_rejectionReason e' =
             (case rb_rejectionReason body of Some r \<Rightarrow> Some r | None \<Rightarrow> rb_comments body)"
proof -
  let ?a' = "a\<lparr>a_status := A_rejected, a_comments := rb_comments body,
                a_actionDate := Some now\<rparr>"
  have v: "Approval_validate ?a'" using valid by (simp add: Approval_validate_def)
  then obtain s1 where s1: "Approval_save ?a' s = Inr s1"
    by (simp add: Approval_save_def)
  have aid: "a_id ?a' = i" using Approval_findById_id[OF found] by simp
  have fa: "Approval_findById s1 i = Some ?a'"
    by (rule Approval_findById_save[OF found aid s1])
  have fe: "Expense_findById s1 (a_expense a) = Some e"
    using Expense_findById_Approval_save[OF s1] expense by simp
  let ?e' = "e\<lparr>e_status := E_rejected,
     e_rejectionReason := or_string (rb_rejectionReason body) (rb_comments body)\<rparr>"
  have eid: "e_id ?e' = a_expense a" using Expense_findById_id[OF expense] by simp
  have r: "reject user i body now s = (Inr ?a', Expense_save ?e' s1)"
    using found caller pending s1 fe by (simp add: reject_def)
  have fe': "Expense_findById (Expense_save ?e' s1) (a_expense a) = Some ?e'"
    by (rule Expense_findById_save[OF fe eid])
  have fa': "Approval_findById (Expense_save ?e' s1) i = Some ?a'"
    using fa by (simp add: Approval_findById_Expense_save)
  have reason: "e_rejectionReason ?e' =
      (case rb_rejectionReason body of Some r \<Rightarrow> Some r | None \<Rightarrow> rb_comments body)"
    using body by (auto simp: approvalValidation_reject_def or_string_def split: option.splits)
  show ?thesis using r fa' fe' reason by (intro exI[of _ ?a'] exI[of _ ?e'] exI) simp
qed

text \<open>
  The scenario of the specification: in \<open>three_pending\<close> the manager rejects approval 1
  with the comment "out of policy" and no separate reason. The expense is rejected with
  that reason while two other approvals are still pending.
\<close>

theorem reject_ends_workflow_witness:
  "\<exists>a' e' s'. reject (wf_user 10 Manager) 1 out_of_policy 7 three_pending = (Inr a', s') \<and>
      Approval_findById s' 1 = Some a' \<and> a_status a' = A_rejected \<and>
      Expense_findById s' 100 = Some e' \<and> e_status e' = E_rejected \<and>
      e_rejectionReason e' = Some ''out of policy'' \<and>
      length (Approval_find_pending s' 100) = 2"
proof -
  have h1: "Approval_findById three_pending 1 = Some (wf_approval 1 10 Manager A_pending 1)"
    by (simp add: ex_defs wf_defs Approval_findById_def)
  have h2: "a_approver (wf_approval 1 10 Manager A_pending 1) = u_id (wf_user 10 Manager)"
    by (simp add: wf_defs)
  have h3: "a_status (wf_approval 1 10 Manager A_pending 1) = A_pending" by (simp add: wf_defs)
  have h4: "Approval_validate (wf_approval 1 10 Manager A_pending 1)"
    by (simp add: wf_defs Approval_validate_def approvalSchema_role_enum_def)
  have h5: "approvalValidation_reject out_of_policy"
    by (simp add: ex_defs approvalValidation_reject_def)
  have h6: "Expense_findById three_pending (a_expense (wf_approval 1 10 Manager A_pending 1)) =
              Some (wf_expense E_pending_manager 500)"
    by (simp add: ex_defs wf_defs Expense_findById_def)
  have ex: "a_expense (wf_approval 1 10 Manager A_pending 1) = 100" by (simp add: wf_defs)
  have p: "length (Approval_find_pending
              (snd (reject (wf_user 10 Manager) 1 out_of_policy 7 three_pending)) 100) = 2"
    by (simp add: ex_defs wf_defs route_defs)
  obtain a' e' s' where r:
    "reject (wf_user 10 Manager) 1 out_of_policy 7 three_pending = (Inr a', s')"
    "Approval_findById s' 1 = Some a'" "a_status a' = A_rejected"
    "Expense_findById s' 100 = Some e'" "e_status e' = E_rejected"
    "e_rejectionReason e' = (case rb_rejectionReason out_of_policy of Some r \<Rightarrow> Some r
        | None \<Rightarrow> rb_comments out_of_policy)"
    using reject_ends_workflow[OF h1 h2 h3 h4 h5 h6, of 7] unfolding ex by blast
  have "e_rejectionReason e' = Some ''out of policy''" using r(6) by (simp add: ex_defs)
  moreover have "length (Approval_find_pending s' 100) = 2" using p r(1) by simp
  ultimately show ?thesis using r by blast
qed


subsection \<open>Escalate\<close>

text \<open>
  Escalating to a manager or a finance officer: the acted approval becomes \<open>escalated\<close>,
  exactly one approval is added, pending, for the target, with the target's role and
  the acted approval's priority plus 1, and the expense moves to the target.
\<close>

lemma escalate_creates_next_approval:
  assumes found: "Approval_findById s i = Some a"
    and caller: "a_approver a = u_id user"
    and pending: "a_status a = A_pending"
    and valid: "Approval_validate a"
    and target: "User_findById s (eb_escalatedTo body) = Some t"
    and trole: "u_role t = Manager \<or> u_role t = Finance"
    and expense: "Expense_findById s (a_expense a) = Some e"
  shows "\<exists>a' n s'. escalate user i body now s = (Inr (a', n), s') \<and>
           a_status a' = A_escalated \<and>
           approvals s' = map (\<lambda>x. if a_id x = i then a' else x) (approvals s) @ [n] \<and>
           a_expense n = a_expense a \<and> a_approver n = eb_escalatedTo body \<and>
           a_role n = u_role t \<and> a_status n = A_pending \<and> a_priority n = a_priority a + 1 \<and>
           Expense_findById s' (a_expense a) =
             Some (e\<lparr>e_currentApprover := Some (eb_escalatedTo body),
                     e_status := (if u_role t = Finance then E_pending_finance
                                  else E_pending_manager)\<rparr>)"
proof -
  let ?a' = "a\<lparr>a_status := A_escalated, a_comments := eb_comments body,
                a_escalationReason := eb_escalationReason body,
                a_escalatedTo := Some (eb_escalatedTo body), a_escalationDate := Some now\<rparr>"
  let ?s1 = "s\<lparr>approvals := map (\<lambda>x. if a_id x = i then ?a' else x) (approvals s)\<rparr>"
  let ?n = "new_Approval ?s1 (a_expense ?a') (eb_escalatedTo body) (u_role t)
               A_pending (Some (a_priority ?a' + 1))"
  let ?s2 = "?s1\<lparr>approvals := approvals ?s1 @ [?n]\<rparr>"
  let ?e' = "e\<lparr>e_currentApprover := Some (eb_escalatedTo body),
                     e_status := (if u_role t = Finance then E_pending_finance
                                  else E_pending_manager)\<rparr>"
  have aid: "a_id a = i" by (rule Approval_findById_id[OF found])
  have eid: "e_id e = a_expense a" by (rule Expense_findById_id[OF expense])
  have s1: "Approval_save ?a' s = Inr ?s1"
    using valid aid by (simp add: Approval_save_def Approval_validate_def)
  have s2: "Approval_insert ?n ?s1 = Inr ?s2"
    using trole
    by (auto simp add: Approval_insert_def Approval_validate_def new_Approval_def approvalSchema_role_enum_def)
  have fe: "Expense_findById ?s2 (a_expense a) = Some e"
    using expense by (simp add: Expense_findById_def)
  have r: "escalate user i body now s = (Inr (?a', ?n), Expense_save ?e' ?s2)"
    using found caller pending target trole s1 s2 fe
    by (auto simp add: escalate_def Let_def)
  have fe': "Expense_findById (Expense_save ?e' ?s2) (a_expense a) = Some ?e'"
    using Expense_findById_save[OF fe, of ?e'] eid by simp
  have ap: "approvals (Expense_save ?e' ?s2) = map (\<lambda>x. if a_id x = i then ?a' else x) (approvals s) @ [?n]"
    by (simp add: approvals_Expense_save)
  show ?thesis
    apply (rule exI[of _ ?a'], rule exI[of _ ?n], rule exI[of _ "Expense_save ?e' ?s2"])
    using r fe' ap by (simp add: new_Approval_def)
qed

text \<open>
  Claim C6: escalating a pending approval to a valid escalation target marks it
  \<open>escalated\<close>, creates exactly one new pending approval for the target with the
  target's role and priority plus 1, and moves the expense to the target. The route
  accepts a target of role admin, and the approval schema does not: in the store
  \<open>one_pending\<close> the manager escalates approval 1 to the administrator (user 12). The
  request ends in the error response, the only approval of the expense is \<open>escalated\<close>,
  no approval has been created and the expense is as it was.
\<close>

theorem escalate_to_admin_failing_input:
  "fst (escalate (wf_user 10 Manager) 1 (escalate_to 12) 7 one_pending) = Inl SERVER_ERROR \<and>
   map a_status (approvals (snd (escalate (wf_user 10 Manager) 1 (escalate_to 12) 7 one_pending))) = [A_escalated] \<and>
   expenses (snd (escalate (wf_user 10 Manager) 1 (escalate_to 12) 7 one_pending)) = [wf_expense E_pending_manager 500]"
  by (simp add: ex_defs wf_defs route_defs)

text \<open>
  Claim C8: escalating a pending approval to a user of role admin passes the route's
  check of the target's role (manager, finance or admin); the acted approval is saved
  as \<open>escalated\<close>; the new approval would carry the role admin, which is outside the
  schema's enumeration (manager, finance, director), so saving it fails. The request
  errors after the first write: the acted approval is \<open>escalated\<close> in the store, no
  approval has been added, the pending approvals of the expense are those of before
  without the acted one (none, when the acted approval was the only one pending), and
  the expense is not touched.
\<close>

theorem escalate_to_admin_fails_after_first_write:
  assumes found: "Approval_findById s i = Some a"
    and caller: "a_approver a = u_id user"
    and pending: "a_status a = A_pending"
    and valid: "Approval_validate a"
    and target: "User_findById s (eb_escalatedTo body) = Some t"
    and admin: "u_role t = Admin"
  shows "u_role t \<in> set [Manager, Finance, Admin] \<and> u_role t \<notin> set approvalSchema_role_enum \<and>
         fst (escalate user i body now s) = Inl SERVER_ERROR \<and>
         map_option a_status (Approval_findById (snd (escalate user i body now s)) i) = Some A_escalated \<and>
         length (approvals (snd (escalate user i body now s))) = length (approvals s) \<and>
         Approval_find_pending (snd (escalate user i body now s)) (a_expense a) =
           filter (\<lambda>x. a_id x \<noteq> i) (Approval_find_pending s (a_expense a)) \<and>
         (Approval_find_pending s (a_expense a) = [a] \<longrightarrow>
            Approval_find_pending (snd (escalate user i body now s)) (a_expense a) = []) \<and>
         expenses (snd (escalate user i body now s)) = expenses s"
proof -
  let ?a' = "a\<lparr>a_status := A_escalated, a_comments := eb_comments body,
                a_escalationReason := eb_escalationReason body,
                a_escalatedTo := Some (eb_escalatedTo body), a_escalationDate := Some now\<rparr>"
  let ?s1 = "s\<lparr>approvals := map (\<lambda>x. if a_id x = i then ?a' else x) (approvals s)\<rparr>"
  have aid: "a_id a = i" by (rule Approval_findById_id[OF found])
  have s1: "Approval_save ?a' s = Inr ?s1"
    using valid aid by (simp add: Approval_save_def Approval_validate_def)
  have bad: "Approval_insert (new_Approval ?s1 (a_expense ?a') (eb_escalatedTo body) (u_role t)
               A_pending (Some (a_priority ?a' + 1))) ?s1 = Inl SERVER_ERROR"
    using admin
    by (simp add: Approval_insert_def Approval_validate_def new_Approval_def approvalSchema_role_enum_def)
  have r: "escalate user i body now s = (Inl SERVER_ERROR, ?s1)"
    using found caller pending target admin s1 bad by (simp add: escalate_def Let_def)
  have fa: "Approval_findById ?s1 i = Some ?a'"
    using Approval_findById_save[OF found _ s1] aid by simp
  have fp: "Approval_find_pending ?s1 (a_expense a) =
      filter (\<lambda>x. a_id x \<noteq> i) (Approval_find_pending s (a_expense a))"
    unfolding Approval_find_pending_def by (simp add: filter_replace_not)
  show ?thesis using admin fa fp aid
    by (simp add: r approvalSchema_role_enum_def)
qed

text \<open>
  In \<open>three_pending\<close> the finance officer escalates approval 2 to the administrator:
  approvals 1 and 3 stay pending, approval 2 is \<open>escalated\<close>, and there are still three
  approvals. In \<open>one_pending\<close> the manager escalates the only approval of the expense, and
  none is pending afterwards.
\<close>

theorem escalate_to_admin_fails_after_first_write_witness:
  "fst (escalate (wf_user 11 Finance) 2 (escalate_to 12) 7 three_pending) = Inl SERVER_ERROR \<and>
   map_option a_status
     (Approval_findById (snd (escalate (wf_user 11 Finance) 2 (escalate_to 12) 7 three_pending)) 2)
     = Some A_escalated \<and>
   length (approvals (snd (escalate (wf_user 11 Finance) 2 (escalate_to 12) 7 three_pending))) = 3 \<and>
   map a_id (Approval_find_pending
               (snd (escalate (wf_user 11 Finance) 2 (escalate_to 12) 7 three_pending)) 100)
     = [1, 3] \<and>
   expenses (snd (escalate (wf_user 11 Finance) 2 (escalate_to 12) 7 three_pending))
     = [wf_expense E_pending_manager 500] \<and>
   Approval_find_pending one_pending 100 = [wf_approval 1 10 Manager A_pending 1] \<and>
   fst (escalate (wf_user 10 Manager) 1 (escalate_to 12) 8 one_pending) = Inl SERVER_ERROR \<and>
   Approval_find_pending (snd (escalate (wf_user 10 Manager) 1 (escalate_to 12) 8 one_pending)) 100
     = []"
proof -
  let ?a = "wf_approval 2 11 Finance A_pending 2"
  let ?b = "wf_approval 1 10 Manager A_pending 1"
  have h1: "Approval_findById three_pending 2 = Some ?a"
    by (simp add: ex_defs wf_defs Approval_findById_def)
  have h2: "a_approver ?a = u_id (wf_user 11 Finance)" by (simp add: wf_defs)
  have h3: "a_status ?a = A_pending" by (simp add: wf_defs)
  have h4: "Approval_validate ?a"
    by (simp add: wf_defs Approval_validate_def approvalSchema_role_enum_def)
  have h5: "User_findById three_pending (eb_escalatedTo (escalate_to 12)) = Some (wf_user 12 Admin)"
    by (simp add: ex_defs wf_defs User_findById_def)
  have h6: "u_role (wf_user 12 Admin) = Admin" by (simp add: wf_defs)
  have ex: "a_expense ?a = 100" by (simp add: wf_defs)
  have p: "map a_id (filter (\<lambda>x. a_id x \<noteq> 2) (Approval_find_pending three_pending 100)) = [1, 3]"
    by (simp add: ex_defs wf_defs Approval_find_pending_def)
  have l: "length (approvals three_pending) = 3"
    "expenses three_pending = [wf_expense E_pending_manager 500]"
    by (simp_all add: ex_defs wf_defs)
  have three: "fst (escalate (wf_user 11 Finance) 2 (escalate_to 12) 7 three_pending) = Inl SERVER_ERROR \<and>
     map_option a_status
       (Approval_findById (snd (escalate (wf_user 11 Finance) 2 (escalate_to 12) 7 three_pending)) 2)
       = Some A_escalated \<and>
     length (approvals (snd (escalate (wf_user 11 Finance) 2 (escalate_to 12) 7 three_pending))) = 3 \<and>
     map a_id (Approval_find_pending
                 (snd (escalate (wf_user 11 Finance) 2 (escalate_to 12) 7 three_pending)) 100)
       = [1, 3] \<and>
     expenses (snd (escalate (wf_user 11 Finance) 2 (escalate_to 12) 7 three_pending))
       = [wf_expense E_pending_manager 500]"
    using escalate_to_admin_fails_after_first_write[OF h1 h2 h3 h4 h5 h6, of 7] p l
    unfolding ex by simp
  have g1: "Approval_findById one_pending 1 = Some ?b"
    by (simp add: ex_defs wf_defs Approval_findById_def)
  have g2: "a_approver ?b = u_id (wf_user 10 Manager)" by (simp add: wf_defs)
  have g3: "a_status ?b = A_pending" by (simp add: wf_defs)
  have g4: "Approval_validate ?b"
    by (simp add: wf_defs Approval_validate_def approvalSchema_role_enum_def)
  have g5: "User_findById one_pending (eb_escalatedTo (escalate_to 12)) = Some (wf_user 12 Admin)"
    by (simp add: ex_defs wf_defs User_findById_def)
  have exb: "a_expense ?b = 100" by (simp add: wf_defs)
  have only: "Approval_find_pending one_pending 100 = [?b]"
    by (simp add: ex_defs wf_defs Approval_find_pending_def)
  have one: "fst (escalate (wf_user 10 Manager) 1 (escalate_to 12) 8 one_pending) = Inl SERVER_ERROR \<and>
     Approval_find_pending (snd (escalate (wf_user 10 Manager) 1 (escalate_to 12) 8 one_pending)) 100
       = []"
    using escalate_to_admin_fails_after_first_write[OF g1 g2 g3 g4 g5 h6, of 8] only
    unfolding exb by blast
  show ?thesis using three one only by blast
qed

subsection \<open>Refusals\<close>

text \<open>
  Claim C7, as amended: for approve, reject and escalate alike, when the caller is not
  the approval's approver the request is refused with \<open>ACCESS_DENIED\<close> whatever the
  approval's status, and when the caller is the approver and the approval is not
  pending it is refused with \<open>APPROVAL_NOT_PENDING\<close>; in both cases the store is left
  as it was.
\<close>

theorem refusal_leaves_store_unchanged:
  assumes "Approval_findById s i = Some a"
  shows "(a_approver a \<noteq> u_id user \<longrightarrow>
            approve user i ab now s = (Inl ACCESS_DENIED, s) \<and>
            reject user i rb now s = (Inl ACCESS_DENIED, s) \<and>
            escalate user i eb now s = (Inl ACCESS_DENIED, s)) \<and>
         (a_approver a = u_id user \<and> a_status a \<noteq> A_pending \<longrightarrow>
            approve user i ab now s = (Inl APPROVAL_NOT_PENDING, s) \<and>
            reject user i rb now s = (Inl APPROVAL_NOT_PENDING, s) \<and>
            escalate user i eb now s = (Inl APPROVAL_NOT_PENDING, s))"
  using assms by (simp add: approve_def reject_def escalate_def)

text \<open>
  A finance officer acting on the manager's pending approval, and the manager acting
  again on an approval that is already approved.
\<close>

theorem refusal_leaves_store_unchanged_witness:
  "Approval_findById one_pending 1 = Some (wf_approval 1 10 Manager A_pending 1) \<and>
   a_approver (wf_approval 1 10 Manager A_pending 1) \<noteq> u_id (wf_user 11 Finance) \<and>
   approve (wf_user 11 Finance) 1 no_comment 7 one_pending = (Inl ACCESS_DENIED, one_pending) \<and>
   reject (wf_user 11 Finance) 1 out_of_policy 7 one_pending = (Inl ACCESS_DENIED, one_pending) \<and>
   escalate (wf_user 11 Finance) 1 (escalate_to 11) 7 one_pending = (Inl ACCESS_DENIED, one_pending) \<and>
   Approval_findById already_approved 1 = Some (wf_approval 1 10 Manager A_approved 1) \<and>
   a_approver (wf_approval 1 10 Manager A_approved 1) = u_id (wf_user 10 Manager) \<and>
   a_status (wf_approval 1 10 Manager A_approved 1) \<noteq> A_pending \<and>
   approve (wf_user 10 Manager) 1 no_comment 7 already_approved = (Inl APPROVAL_NOT_PENDING, already_approved) \<and>
   reject (wf_user 10 Manager) 1 out_of_policy 7 already_approved = (Inl APPROVAL_NOT_PENDING, already_approved) \<and>
   escalate (wf_user 10 Manager) 1 (escalate_to 11) 7 already_approved = (Inl APPROVAL_NOT_PENDING, already_approved)"
proof -
  have f1: "Approval_findById one_pending 1 = Some (wf_approval 1 10 Manager A_pending 1)"
    by (simp add: ex_defs wf_defs Approval_findById_def)
  have f2: "Approval_findById already_approved 1 = Some (wf_approval 1 10 Manager A_approved 1)"
    by (simp add: ex_defs wf_defs Approval_findById_def)
  have n1: "a_approver (wf_approval 1 10 Manager A_pending 1) \<noteq> u_id (wf_user 11 Finance)"
    by (simp add: wf_defs)
  have n2: "a_approver (wf_approval 1 10 Manager A_approved 1) = u_id (wf_user 10 Manager) \<and>
            a_status (wf_approval 1 10 Manager A_approved 1) \<noteq> A_pending"
    by (simp add: wf_defs)
  show ?thesis
    using refusal_leaves_store_unchanged[OF f1, of "wf_user 11 Finance" no_comment 7 out_of_policy "escalate_to 11"]
      refusal_leaves_store_unchanged[OF f2, of "wf_user 10 Manager" no_comment 7 out_of_policy "escalate_to 11"]
      f1 f2 n1 n2
    by blast
qed

text \<open>
  Claim C7 as stated fails where both conditions hold: the caller's identity is checked
  first, so an approval that is not pending, acted on by someone who is not its
  approver, is refused with \<open>ACCESS_DENIED\<close> (HTTP 403) and not as
  \<open>APPROVAL_NOT_PENDING\<close> (HTTP 400).
\<close>

theorem refusal_order_counterexample:
  "map_option a_status (Approval_findById already_approved 1) = Some A_approved \<and>
   approve (wf_user 11 Finance) 1 no_comment 7 already_approved = (Inl ACCESS_DENIED, already_approved) \<and>
   http_status ACCESS_DENIED = 403 \<and> http_status APPROVAL_NOT_PENDING = 400"
  by (simp add: ex_defs wf_defs route_defs)

section \<open>Submitting\<close>

text \<open>
  Claim C2: a draft expense submitted by its employee or by an administrator, whose
  amount is at most the company's \<open>settings.autoApprovalLimit\<close>, becomes \<open>approved\<close>
  with \<open>approvedBy\<close> the submitter and \<open>approvedAt\<close> the time of the request, and no
  approval is created.
\<close>

theorem submit_auto_approves:
  assumes found: "Expense_findById s i = Some e"
    and draft: "e_status e = E_draft"
    and owner: "u_id user = e_employee e \<or> u_role user = Admin"
    and company: "Company_findById s (e_company e) = Some c"
    and limit: "c_autoApprovalLimit c = Some L"
    and small: "e_amount e \<le> L"
  shows "fst (submit user i now s) =
           Inr (e\<lparr>e_status := E_approved, e_approvedBy := Some (u_id user), e_approvedAt := Some now\<rparr>) \<and>
         Expense_findById (snd (submit user i now s)) i =
           Some (e\<lparr>e_status := E_approved, e_approvedBy := Some (u_id user), e_approvedAt := Some now\<rparr>) \<and>
         approvals (snd (submit user i now s)) = approvals s"
proof -
  let ?e' = "e\<lparr>e_status := E_approved, e_approvedBy := Some (u_id user), e_approvedAt := Some now\<rparr>"
  have le: "e_amount e \<le> or_number (c_autoApprovalLimit c) 100"
    using limit small by (simp add: or_number_def)
  have r: "submit user i now s = (Inr ?e', Expense_save ?e' s)"
    using found draft owner company le by (auto simp add: submit_def Let_def)
  have "e_id ?e' = i" using Expense_findById_id[OF found] by simp
  from Expense_findById_save[OF found this] show ?thesis
    by (simp add: r approvals_Expense_save)
qed

text \<open>
  The scenario of the specification: limit 100, amount 50.
\<close>

theorem submit_auto_approves_witness:
  "fst (submit employee_20 100 7 (draft_db 50 100)) =
      Inr ((wf_expense E_draft 50)\<lparr>e_status := E_approved, e_approvedBy := Some 20, e_approvedAt := Some 7\<rparr>) \<and>
   Expense_findById (snd (submit employee_20 100 7 (draft_db 50 100))) 100 =
      Some ((wf_expense E_draft 50)\<lparr>e_status := E_approved, e_approvedBy := Some 20, e_approvedAt := Some 7\<rparr>) \<and>
   approvals (snd (submit employee_20 100 7 (draft_db 50 100))) = []"
proof -
  have h1: "Expense_findById (draft_db 50 100) 100 = Some (wf_expense E_draft 50)"
    by (simp add: ex_defs wf_defs Expense_findById_def)
  have h2: "e_status (wf_expense E_draft 50) = E_draft" by (simp add: wf_defs)
  have h3: "u_id employee_20 = e_employee (wf_expense E_draft 50) \<or> u_role employee_20 = Admin"
    by (simp add: ex_defs wf_defs)
  have h4: "Company_findById (draft_db 50 100) (e_company (wf_expense E_draft 50)) =
              Some \<lparr> c_id = 1, c_autoApprovalLimit = Some 100 \<rparr>"
    by (simp add: ex_defs wf_defs Company_findById_def)
  have h5: "c_autoApprovalLimit \<lparr> c_id = 1, c_autoApprovalLimit = Some 100 \<rparr> = Some 100" by simp
  have h6: "e_amount (wf_expense E_draft 50) \<le> 100" by (simp add: wf_defs)
  have u: "u_id employee_20 = 20" by (simp add: ex_defs wf_defs)
  have a: "approvals (draft_db 50 100) = []" by (simp add: ex_defs wf_defs)
  show ?thesis using submit_auto_approves[OF h1 h2 h3 h4 h5 h6, of 7] by (simp only: u a)
qed

text \<open>
  Above the limit the handler computes, with a manager assigned: the expense becomes
  \<open>pending_manager\<close> with the manager as \<open>currentApprover\<close>, and exactly one approval is
  added, for the manager, pending, of role manager and priority 1.
\<close>

lemma submit_creates_manager_approval:
  assumes found: "Expense_findById s i = Some e"
    and draft: "e_status e = E_draft"
    and owner: "u_id user = e_employee e \<or> u_role user = Admin"
    and company: "Company_findById s (e_company e) = Some c"
    and large: "or_number (c_autoApprovalLimit c) 100 < e_amount e"
    and employee: "User_findById s (e_employee e) = Some emp"
    and manager: "u_manager emp = Some m"
  shows "\<exists>n. fst (submit user i now s) =
             Inr (e\<lparr>e_status := E_pending_manager, e_currentApprover := Some m\<rparr>) \<and>
           Expense_findById (snd (submit user i now s)) i =
             Some (e\<lparr>e_status := E_pending_manager, e_currentApprover := Some m\<rparr>) \<and>
           approvals (snd (submit user i now s)) = approvals s @ [n] \<and>
           a_expense n = i \<and> a_approver n = m \<and> a_role n = Manager \<and>
           a_status n = A_pending \<and> a_priority n = 1"
proof -
  let ?e' = "e\<lparr>e_status := E_pending_manager, e_currentApprover := Some m\<rparr>"
  let ?n = "new_Approval s (e_id e) m Manager A_pending None"
  let ?s1 = "s\<lparr>approvals := approvals s @ [?n]\<rparr>"
  have eid: "e_id e = i" by (rule Expense_findById_id[OF found])
  have ins: "Approval_insert ?n s = Inr ?s1"
    by (simp add: Approval_insert_def Approval_validate_def new_Approval_def approvalSchema_role_enum_def)
  have r: "submit user i now s = (Inr ?e', Expense_save ?e' ?s1)"
    using found draft owner company large employee manager ins
    by (auto simp add: submit_def Let_def)
  have fe: "Expense_findById ?s1 i = Some e" using found by (simp add: Expense_findById_def)
  have "Expense_findById (Expense_save ?e' ?s1) i = Some ?e'"
    using Expense_findById_save[OF fe, of ?e'] eid by simp
  then show ?thesis
    apply (intro exI[of _ ?n])
    using eid by (simp add: r approvals_Expense_save new_Approval_def)
qed

text \<open>
  Claim C3: a draft expense above the company's auto-approval limit, whose employee has
  a manager, becomes \<open>pending_manager\<close> with exactly one pending approval for the
  manager. The handler reads the limit as \<open>autoApprovalLimit || 100\<close>, so a company
  whose limit is 0 (a value the company validation accepts) is treated as having the
  limit 100: an expense of 50 of employee 20, whose manager is user 10, is approved on
  submission and no approval is created.
\<close>

theorem submit_zero_limit_auto_approves:
  "map_option c_autoApprovalLimit (Company_findById (draft_db 50 0) 1) = Some (Some 0) \<and>
   map_option u_manager (User_findById (draft_db 50 0) 20) = Some (Some 10) \<and>
   map_option e_amount (Expense_findById (draft_db 50 0) 100) = Some 50 \<and>
   map_option e_status (Expense_findById (snd (submit employee_20 100 7 (draft_db 50 0))) 100)
     = Some E_approved \<and>
   approvals (snd (submit employee_20 100 7 (draft_db 50 0))) = []"
  by (simp add: ex_defs wf_defs route_defs)

section \<open>Receipt parsing\<close>

subsection \<open>The amount\<close>

text \<open>
  Claim C9, as amended: the amount patterns are tried in the fixed order (TOTAL,
  AMOUNT, \<open>$\<close>, USD, EUR, GBP), each across the non-empty lines in source order. When the
  first hit, that is the first line matched by the first pattern that matches any
  line, parses to a positive number, it wins: the amount is its value and the amount
  search adds exactly 0.3 to the confidence accumulator. In particular, for a text that
  contains the line \<open>TOTAL: $42.50\<close> with no earlier line matching the TOTAL pattern,
  \<open>parseReceiptText\<close> returns the amount 42.50 with a confidence of at least 0.3. The
  final confidence is at most 1.
\<close>

theorem amount_first_positive_hit:
  "(amountPatterns = qs @ p # ps \<and>
    (\<forall>q\<in>set qs. \<forall>l\<in>set (lines_of input). js_match q l = None) \<and>
    lines_of input = pre @ line # post \<and>
    (\<forall>l\<in>set pre. js_match p l = None) \<and>
    js_match p line = Some m \<and> 0 < parseFloat (snd m)
    \<longrightarrow> amount_patterns amountPatterns (lines_of input) (0, 0) = (parseFloat (snd m), 3 / 10) \<and>
        r_amount (parseReceiptText D input) = parseFloat (snd m) \<and>
        3 / 10 \<le> r_confidence (parseReceiptText D input)) \<and>
   (lines_of input = pre' @ ''TOTAL: $42.50'' # post' \<and>
    (\<forall>l\<in>set pre'. js_match (hd amountPatterns) l = None)
    \<longrightarrow> r_amount (parseReceiptText D input) = 85 / 2 \<and>
        3 / 10 \<le> r_confidence (parseReceiptText D input)) \<and>
   r_confidence (parseReceiptText D input) \<le> 1"
proof (intro conjI impI)
  assume h: "amountPatterns = qs @ p # ps \<and>
    (\<forall>q\<in>set qs. \<forall>l\<in>set (lines_of input). js_match q l = None) \<and>
    lines_of input = pre @ line # post \<and>
    (\<forall>l\<in>set pre. js_match p l = None) \<and>
    js_match p line = Some m \<and> 0 < parseFloat (snd m)"
  then have a: "amount_patterns amountPatterns (lines_of input) (0, 0) = (parseFloat (snd m), 0 + 3 / 10)"
    using amount_patterns_first_positive[where qs=qs and pre=pre and line=line and post=post
        and p=p and m=m and c=0 and ps=ps] by simp
  then show "amount_patterns amountPatterns (lines_of input) (0, 0) = (parseFloat (snd m), 3 / 10)"
    by simp
  show "r_amount (parseReceiptText D input) = parseFloat (snd m)"
    using a by (simp add: parseReceiptText_amount)
  show "3 / 10 \<le> r_confidence (parseReceiptText D input)"
    using parseReceiptText_confidence_ge[of input D] a by simp
next
  assume h: "lines_of input = pre' @ ''TOTAL: $42.50'' # post' \<and>
    (\<forall>l\<in>set pre'. js_match (hd amountPatterns) l = None)"
  have m: "js_match (hd amountPatterns) ''TOTAL: $42.50'' = Some (''TOTAL: $42.50'', ''42.50'')"
    by code_simp
  have v: "parseFloat ''42.50'' = 85 / 2" by code_simp
  have ps: "amountPatterns = [] @ hd amountPatterns # tl amountPatterns"
    by (simp add: amountPatterns_def)
  have "amount_patterns ([] @ hd amountPatterns # tl amountPatterns)
          (pre' @ ''TOTAL: $42.50'' # post') (0, 0) =
        (parseFloat (snd (''TOTAL: $42.50'', ''42.50'')), 0 + 3 / 10)"
  proof (rule amount_patterns_first_positive)
    show "\<forall>q\<in>set []. \<forall>l\<in>set (pre' @ ''TOTAL: $42.50'' # post'). js_match q l = None"
      by simp
    show "\<forall>l\<in>set pre'. js_match (hd amountPatterns) l = None" using h by blast
    show "js_match (hd amountPatterns) ''TOTAL: $42.50'' = Some (''TOTAL: $42.50'', ''42.50'')"
      by (rule m)
    show "0 < parseFloat (snd (''TOTAL: $42.50'', ''42.50''))" by (simp add: v)
  qed
  then have "amount_patterns amountPatterns (pre' @ ''TOTAL: $42.50'' # post') (0, 0) =
        (parseFloat (snd (''TOTAL: $42.50'', ''42.50'')), 0 + 3 / 10)"
    by (simp only: ps[symmetric])
  then have a: "amount_patterns amountPatterns (lines_of input) (0, 0) = (85 / 2, 3 / 10)"
    using h by (simp add: v)
  show "r_amount (parseReceiptText D input) = 85 / 2"
    using a by (simp add: parseReceiptText_amount)
  show "3 / 10 \<le> r_confidence (parseReceiptText D input)"
    using parseReceiptText_confidence_ge[of input D] a by simp
next
  show "r_confidence (parseReceiptText D input) \<le> 1" by (rule parseReceiptText_confidence_le)
qed

text \<open>
  A receipt whose first hit is a line of the third pattern, and a receipt with the line
  \<open>TOTAL: $42.50\<close> after the merchant's name.
\<close>

theorem amount_first_positive_hit_witness:
  "lines_of cafe_text = [''Corner Cafe'', ''$5.00'', ''10 USD''] \<and>
   js_match (amountPatterns ! 2) ''$5.00'' = Some (''$5.00'', ''5.00'') \<and>
   r_amount (parseReceiptText no_dates cafe_text) = 5 \<and>
   3 / 10 \<le> r_confidence (parseReceiptText no_dates cafe_text) \<and>
   lines_of total_text = [''ACME STORE'', ''TOTAL: $42.50'', ''$50.00''] \<and>
   r_amount (parseReceiptText no_dates total_text) = 85 / 2 \<and>
   3 / 10 \<le> r_confidence (parseReceiptText no_dates total_text) \<and>
   r_confidence (parseReceiptText no_dates total_text) \<le> 1"
proof -
  have ps: "amountPatterns = take 2 amountPatterns @ (amountPatterns ! 2) # drop 3 amountPatterns"
    by code_simp
  have e: "\<forall>q\<in>set (take 2 amountPatterns). \<forall>l\<in>set (lines_of cafe_text). js_match q l = None"
    by code_simp
  have l: "lines_of cafe_text = [''Corner Cafe''] @ ''$5.00'' # [''10 USD'']" by code_simp
  have pre: "\<forall>l\<in>set [''Corner Cafe'']. js_match (amountPatterns ! 2) l = None" by code_simp
  have hit: "js_match (amountPatterns ! 2) ''$5.00'' = Some (''$5.00'', ''5.00'')" by code_simp
  have v: "parseFloat (snd (''$5.00'', ''5.00'')) = 5" by code_simp
  have l2: "lines_of total_text = [''ACME STORE''] @ ''TOTAL: $42.50'' # [''$50.00'']" by code_simp
  have pre2: "\<forall>l\<in>set [''ACME STORE'']. js_match (hd amountPatterns) l = None" by code_simp
  have g: "r_amount (parseReceiptText no_dates cafe_text) = parseFloat (snd (''$5.00'', ''5.00'')) \<and>
        3 / 10 \<le> r_confidence (parseReceiptText no_dates cafe_text)"
    using amount_first_positive_hit[where qs="take 2 amountPatterns" and p="amountPatterns ! 2"
        and ps="drop 3 amountPatterns" and input=cafe_text and pre="[''Corner Cafe'']"
        and line="''$5.00''" and post="[''10 USD'']" and m="(''$5.00'', ''5.00'')" and D=no_dates]
      ps e l pre hit v by (simp del: js_match.simps)
  have t: "r_amount (parseReceiptText no_dates total_text) = 85 / 2 \<and>
        3 / 10 \<le> r_confidence (parseReceiptText no_dates total_text) \<and>
        r_confidence (parseReceiptText no_dates total_text) \<le> 1"
    using amount_first_positive_hit[where input=total_text and pre'="[''ACME STORE'']"
        and post'="[''$50.00'']" and D=no_dates] l2 pre2 by (simp del: js_match.simps)
  show ?thesis using g t l l2 hit v by (simp del: js_match.simps)
qed

text \<open>
  Claim C9 as stated fails where the first hit parses to 0: the outer loop ends on
  \<open>amount > 0\<close>, so after the hit \<open>TOTAL: 0\<close> the later patterns are still tried. The
  line \<open>$5.00\<close> of the third pattern sets the amount to 5, and the amount search has
  added 0.3 twice.
\<close>

theorem zero_total_counterexample:
  "lines_of zero_total_text = [''TOTAL: 0'', ''$5.00''] \<and>
   js_match (hd amountPatterns) ''TOTAL: 0'' = Some (''TOTAL: 0'', ''0'') \<and>
   r_amount (parseReceiptText no_dates zero_total_text) = 5 \<and>
   r_confidence (parseReceiptText no_dates zero_total_text) = 6 / 10"
  by code_simp

subsection \<open>The date\<close>

text \<open>
  When the first hit of the date patterns has a group that the date parser accepts, the
  result's date is that date and the confidence includes its 0.2.
\<close>

lemma date_first_valid_hit:
  assumes ps: "datePatterns = qs @ p # ps"
    and earlier: "\<forall>q\<in>set qs. \<forall>l\<in>set (lines_of input). js_match q l = None"
    and ls: "lines_of input = pre @ line # post"
    and pre: "\<forall>l\<in>set pre. js_match p l = None"
    and hit: "js_match p line = Some m"
    and valid: "D (snd m) = Some t"
  shows "r_date (parseReceiptText D input) = Valid t \<and>
         2 / 10 \<le> r_confidence (parseReceiptText D input)"
proof -
  let ?a = "amount_patterns amountPatterns (lines_of input) (0, 0)"
  let ?d = "date_patterns D datePatterns (lines_of input) (Null, snd ?a)"
  let ?c = "categorize (toLowerCase (extract_merchant (lines_of input))) (snd ?d)"
  have "?d = date_patterns D (p # ps) (lines_of input) (Null, snd ?a)"
    unfolding ps using earlier by (intro date_patterns_skip) auto
  also have "\<dots> = (Valid t, snd ?a + 2 / 10)"
    using date_lines_first_valid[where D=D, OF pre hit valid] by (simp add: ls)
  finally have d: "?d = (Valid t, snd ?a + 2 / 10)" .
  have "0 \<le> snd ?a" using amount_patterns_mono[of "(0, 0)" amountPatterns] by simp
  then have "2 / 10 \<le> snd ?d" by (simp add: d)
  also have "\<dots> \<le> snd ?c" by (rule categorize_mono)
  finally have "min (2 / 10) 1 \<le> min (snd ?c) 1" by (intro min.mono) simp_all
  then show ?thesis using d by (simp add: parseReceiptText_def Let_def split_def)
qed

text \<open>
  Claim C10: the date is the first match among the three date patterns (numeric d/m/y,
  numeric y/m/d, and the month-name form like \<open>Jan 15, 2024\<close>); a match that parses to a
  valid date is the result's date and adds 0.2. What the parser hands to \<open>new Date\<close> is
  the first group of the match. In the two numeric patterns the group is the whole
  date; in the month-name pattern it is the name of the month alone. For the text
  \<open>Jan 15, 2024\<close> the third pattern matches the whole line, and the result's date and the
  0.2 depend only on what the date parser makes of \<open>Jan\<close>, whatever it makes of
  \<open>Jan 15, 2024\<close>.
\<close>

theorem month_name_date_parses_month_only:
  "js_match (last datePatterns) ''Jan 15, 2024'' = Some (''Jan 15, 2024'', ''Jan'') \<and>
   r_date (parseReceiptText D ''Jan 15, 2024'') =
     (case D ''Jan'' of None \<Rightarrow> Invalid_Date | Some t \<Rightarrow> Valid t) \<and>
   r_confidence (parseReceiptText D ''Jan 15, 2024'') =
     (case D ''Jan'' of None \<Rightarrow> 0 | Some t \<Rightarrow> 2 / 10)"
proof -
  have l: "lines_of ''Jan 15, 2024'' = [''Jan 15, 2024'']" by code_simp
  have a: "amount_patterns amountPatterns [''Jan 15, 2024''] (0, 0) = (0, 0)" by code_simp
  have m: "map (\<lambda>p. js_match p ''Jan 15, 2024'') datePatterns =
             [None, None, Some (''Jan 15, 2024'', ''Jan'')]" by code_simp
  have m3: "js_match (last datePatterns) ''Jan 15, 2024'' = Some (''Jan 15, 2024'', ''Jan'')"
    by code_simp
  obtain p1 p2 p3 where ps: "datePatterns = [p1, p2, p3]" by (simp add: datePatterns_def)
  have j: "js_match p1 ''Jan 15, 2024'' = None" "js_match p2 ''Jan 15, 2024'' = None"
    "js_match p3 ''Jan 15, 2024'' = Some (''Jan 15, 2024'', ''Jan'')"
    using m by (simp_all add: ps del: js_match.simps)
  have d: "date_patterns D datePatterns [''Jan 15, 2024''] (Null, 0) =
      (case D ''Jan'' of None \<Rightarrow> (Invalid_Date, 0) | Some t \<Rightarrow> (Valid t, 2 / 10))"
    by (simp add: ps j Let_def del: js_match.simps split: option.splits)
  have c: "categorize (toLowerCase (extract_merchant [''Jan 15, 2024''])) x = (''Other'', x)" for x
  proof -
    have "find (\<lambda>entry. list_ex (\<lambda>keyword. String_includes
        (toLowerCase (extract_merchant [''Jan 15, 2024''])) keyword) (snd entry)) categoryKeywords = None"
      by code_simp
    then show ?thesis by (simp add: categorize_def)
  qed
  show ?thesis
    by (simp add: m3 parseReceiptText_def Let_def split_def l a d c del: js_match.simps
          split: option.splits)
qed

end
